theory Spec2Isabelle
  imports Complex_Main
begin

section \<open>Go primitives used by the weather pipeline\<close>

text \<open>
  A run-time panic of the Go program is a value of the model: a function that can panic
  returns \<open>panic + 'a\<close>, with \<open>Inl\<close> for the panic.  The only panic the modelled code can
  raise is an index out of range; it records the index and the length of the slice.
\<close>

datatype panic = IndexOutOfRange int nat

text \<open>
  \<open>float64\<close> values are modelled by real numbers, and Go's \<open>int\<close> by unbounded integers:
  the rounding of floating-point arithmetic, infinities, NaN and integer overflow are outside
  the model.
  \<open>go_int\<close> is the conversion \<open>int(x)\<close> of a float (truncation toward zero), \<open>go_rem\<close> and
  \<open>go_quo\<close> are Go's \<open>%\<close> and \<open>/\<close> on integers (truncated division: the remainder takes the
  sign of the dividend), and \<open>math_Round\<close> rounds half away from zero.
\<close>

definition go_int :: "real \<Rightarrow> int" where
  "go_int x = (if 0 \<le> x then \<lfloor>x\<rfloor> else \<lceil>x\<rceil>)"

definition go_rem :: "int \<Rightarrow> int \<Rightarrow> int" where
  "go_rem a b = sgn a * (\<bar>a\<bar> mod \<bar>b\<bar>)"

definition go_quo :: "int \<Rightarrow> int \<Rightarrow> int" where
  "go_quo a b = sgn a * sgn b * (\<bar>a\<bar> div \<bar>b\<bar>)"

definition math_Round :: "real \<Rightarrow> real" where
  "math_Round x = (if 0 \<le> x then of_int \<lfloor>x + 1 / 2\<rfloor> else of_int \<lceil>x - 1 / 2\<rceil>)"

text \<open>Indexing a slice: Go panics when the index is out of range.\<close>

definition index :: "'a list \<Rightarrow> int \<Rightarrow> panic + 'a" where
  "index xs i = (if 0 \<le> i \<and> i < int (length xs) then Inr (xs ! nat i)
                 else Inl (IndexOutOfRange i (length xs)))"

section \<open>Wind compass\<close>

definition dirs :: "string list" where
  "dirs = [''N'', ''NE'', ''E'', ''SE'', ''S'', ''SW'', ''W'', ''NW'']"

definition WindCompass :: "int \<Rightarrow> panic + string" where
  "WindCompass deg =
     (let idx = go_rem (go_int ((of_int deg + 22.5) / 45.0)) 8
      in index dirs idx)"

section \<open>Formatting integers\<close>

text \<open>The decimal rendering of an integer, as \<open>%d\<close> and \<open>strconv.Itoa\<close> produce it.\<close>

definition digit :: "nat \<Rightarrow> char" where
  "digit d = ''0123456789'' ! d"

fun digits :: "nat \<Rightarrow> string" where
  "digits n = (if n < 10 then [digit n] else digits (n div 10) @ [digit (n mod 10)])"

declare digits.simps [simp del]

definition itoa :: "int \<Rightarrow> string" where
  "itoa i = (if i < 0 then CHR ''-'' # digits (nat (- i)) else digits (nat i))"

section \<open>Package time\<close>

text \<open>
  An instant is its count of nanoseconds since the Unix epoch, an unbounded integer (the range
  of \<open>time.Time\<close> is far larger than that of a \<open>Duration\<close>).  A \<open>Time\<close> carries the
  location it was parsed in, which only \<open>Format\<close> looks at: \<open>Before\<close>, \<open>After\<close> and \<open>Sub\<close>
  compare instants.  A \<open>Duration\<close> is an \<open>int64\<close> of nanoseconds and \<open>Sub\<close> saturates at its
  ends, as the library documents.
\<close>

type_synonym duration = int

datatype 'tz Time = MkTime (unix_ns: int) (location: 'tz)

definition minDuration :: duration where
  "minDuration = - (2 ^ 63)"

definition maxDuration :: duration where
  "maxDuration = 2 ^ 63 - 1"

definition Second :: duration where
  "Second = 1000000000"

definition Minute :: duration where
  "Minute = 60 * Second"

definition Hour :: duration where
  "Hour = 60 * Minute"

definition time_Before :: "'tz Time \<Rightarrow> 'tz Time \<Rightarrow> bool" where
  "time_Before t u = (unix_ns t < unix_ns u)"

definition time_After :: "'tz Time \<Rightarrow> 'tz Time \<Rightarrow> bool" where
  "time_After t u = (unix_ns u < unix_ns t)"

definition time_Sub :: "'tz Time \<Rightarrow> 'tz Time \<Rightarrow> duration" where
  "time_Sub t u =
     (let d = unix_ns t - unix_ns u
      in if d < minDuration then minDuration
         else if maxDuration < d then maxDuration
         else d)"

definition Minutes :: "duration \<Rightarrow> real" where
  "Minutes d = of_int d / of_int Minute"

definition Hours :: "duration \<Rightarrow> real" where
  "Hours d = of_int d / of_int Hour"

text \<open>
  The rest of the library is a parameter of the model: the time-zone database
  (\<open>LoadLocation\<close>, \<open>UTC\<close>), parsing a timestamp of the layout \<open>2006-01-02T15:04\<close> in a
  location (\<open>None\<close> for a parse error) and formatting an instant as \<open>15:04\<close> in a location.
\<close>

record 'tz timelib =
  LoadLocation :: "string \<Rightarrow> 'tz option"
  UTC :: 'tz
  ParseInLocation :: "'tz \<Rightarrow> string \<Rightarrow> int option"
  Format :: "'tz \<Rightarrow> int \<Rightarrow> string"

text \<open>The zero \<open>Time\<close> is January 1 of year 1, 00:00 UTC; a failed parse returns it.\<close>

definition zeroTime :: "'tz timelib \<Rightarrow> 'tz Time" where
  "zeroTime L = MkTime (- 62135596800 * Second) (UTC L)"

definition time_Format :: "'tz timelib \<Rightarrow> 'tz Time \<Rightarrow> string" where
  "time_Format L t = Format L (location t) (unix_ns t)"

text \<open>\<open>tz, err := time.LoadLocation(timezone); if err != nil { tz = time.UTC }\<close>\<close>

definition loadLocationOrUTC :: "'tz timelib \<Rightarrow> string \<Rightarrow> 'tz" where
  "loadLocationOrUTC L timezone =
     (case LoadLocation L timezone of None \<Rightarrow> UTC L | Some tz \<Rightarrow> tz)"

section \<open>Moon phase\<close>

definition math_Mod :: "real \<Rightarrow> real \<Rightarrow> real" where
  "math_Mod x y = x - y * of_int (go_int (x / y))"

definition synodicMonth :: real where
  "synodicMonth = 29.530589"

text \<open>\<open>time.Date(2000, 1, 6, 18, 14, 0, 0, time.UTC)\<close>\<close>

definition referenceNewMoon :: "'tz timelib \<Rightarrow> 'tz Time" where
  "referenceNewMoon L = MkTime (947182440 * Second) (UTC L)"

definition moonPhase :: "'tz timelib \<Rightarrow> 'tz Time \<Rightarrow> real" where
  "moonPhase L t =
     (let days = Hours (time_Sub t (referenceNewMoon L)) / 24;
          phase = math_Mod days synodicMonth / synodicMonth
      in if phase < 0 then phase + 1 else phase)"

definition moonPhaseName :: "real \<Rightarrow> string" where
  "moonPhaseName p =
     (if p < 0.034 \<or> p \<ge> 0.966 then ''New Moon''
      else if p < 0.216 then ''Waxing Crescent''
      else if p < 0.284 then ''First Quarter''
      else if p < 0.466 then ''Waxing Gibbous''
      else if p < 0.534 then ''Full Moon''
      else if p < 0.716 then ''Waning Gibbous''
      else if p < 0.784 then ''Last Quarter''
      else ''Waning Crescent'')"

section \<open>Sunrise/sunset bar\<close>

record SunBar =
  SunriseTime :: string
  SunsetTime :: string
  CurrentTime :: string
  SunPositionPct :: real
  IsDay :: bool
  DaylightHours :: string
  MoonPhase :: real
  MoonPhaseName :: string

text \<open>
  The closure \<open>parse\<close> of \<open>buildSunBar\<close>: it drops the parse error, so an unparsable
  timestamp is the zero \<open>Time\<close>.
\<close>

definition parse :: "'tz timelib \<Rightarrow> 'tz \<Rightarrow> string \<Rightarrow> 'tz Time" where
  "parse L tz s = (case ParseInLocation L tz s of None \<Rightarrow> zeroTime L | Some t \<Rightarrow> MkTime t tz)"

definition buildSunBar :: "'tz timelib \<Rightarrow> string \<Rightarrow> string \<Rightarrow> string \<Rightarrow> string \<Rightarrow> SunBar" where
  "buildSunBar L currentTimeStr sunriseStr sunsetStr timezone =
     (let tz = loadLocationOrUTC L timezone;
          sunrise = parse L tz sunriseStr;
          sunset = parse L tz sunsetStr;
          now = parse L tz currentTimeStr;
          daylightMins = Minutes (time_Sub sunset sunrise);
          h = go_quo (go_int daylightMins) 60;
          m = go_rem (go_int daylightMins) 60;
          isDay = (time_After now sunrise \<and> time_Before now sunset);
          positionPct =
            (if daylightMins > 0
             then let elapsed = Minutes (time_Sub now sunrise)
                  in max 0 (min 100 (elapsed / daylightMins * 100))
             else 0);
          mp = moonPhase L now
      in \<lparr>SunriseTime = time_Format L sunrise,
          SunsetTime = time_Format L sunset,
          CurrentTime = time_Format L now,
          SunPositionPct = positionPct,
          IsDay = isDay,
          DaylightHours = itoa h @ ''h '' @ itoa m @ ''m'',
          MoonPhase = mp,
          MoonPhaseName = moonPhaseName mp\<rparr>)"

section \<open>Upstream gateway\<close>

text \<open>
  The network is a parameter: \<open>get n\<close> is the outcome of the \<open>n\<close>-th call of \<open>HTTP.Get\<close> that
  one run of \<open>getJSON\<close> makes, either a network-level error or a response with its status
  code and body.  The JSON decoder is a parameter too (\<open>Inl\<close> for a decode error).  The
  model returns, with the result, the trace of what the call did: its requests and sleeps.
\<close>

datatype http_result = NetworkError string | Response int string

datatype gateway_error = RequestFailed string | APIError int string | DecodeFailed string

text \<open>The text of an error, \<open>err.Error()\<close>.\<close>

fun Error :: "gateway_error \<Rightarrow> string" where
  "Error (RequestFailed e) = ''request failed: '' @ e"
| "Error (APIError status body) = ''API error '' @ itoa status @ '': '' @ body"
| "Error (DecodeFailed e) = ''decode failed: '' @ e"

datatype event = Get | Sleep duration

definition maxAttempts :: nat where
  "maxAttempts = 2"

definition StatusOK :: int where
  "StatusOK = 200"

text \<open>The function literal of \<open>getJSON\<close> that reads a response.\<close>

definition readResponse :: "(string \<Rightarrow> string + 'v) \<Rightarrow> int \<Rightarrow> string \<Rightarrow> gateway_error + 'v" where
  "readResponse decode status body =
     (if status \<noteq> StatusOK then Inl (APIError status (take 512 body))
      else case decode body of
             Inl e \<Rightarrow> Inl (DecodeFailed e)
           | Inr v \<Rightarrow> Inr v)"

function getJSON_loop ::
  "(nat \<Rightarrow> http_result) \<Rightarrow> (string \<Rightarrow> string + 'v) \<Rightarrow> 'v \<Rightarrow> nat \<Rightarrow> gateway_error option
     \<Rightarrow> event list \<Rightarrow> (gateway_error + 'v) \<times> event list" where
  "getJSON_loop get decode v attempt lastErr trace =
     (if attempt < maxAttempts
      then let trace = (if attempt > 0 then trace @ [Sleep (1 * Second)] else trace)
           in case get attempt of
                NetworkError err \<Rightarrow>
                  getJSON_loop get decode v (attempt + 1) (Some (RequestFailed err)) (trace @ [Get])
              | Response status body \<Rightarrow> (readResponse decode status body, trace @ [Get])
      else (case lastErr of None \<Rightarrow> Inr v | Some e \<Rightarrow> Inl e, trace))"
  by pat_completeness auto
termination
  by (relation "measure (\<lambda>(get, decode, v, attempt, lastErr, trace). maxAttempts - attempt)") auto

declare getJSON_loop.simps [simp del]

definition getJSON_traced ::
  "(nat \<Rightarrow> http_result) \<Rightarrow> (string \<Rightarrow> string + 'v) \<Rightarrow> 'v \<Rightarrow> (gateway_error + 'v) \<times> event list" where
  "getJSON_traced get decode v = getJSON_loop get decode v 0 None []"

definition getJSON :: "(nat \<Rightarrow> http_result) \<Rightarrow> (string \<Rightarrow> string + 'v) \<Rightarrow> 'v \<Rightarrow> gateway_error + 'v" where
  "getJSON get decode v = fst (getJSON_traced get decode v)"

section \<open>A time library for the examples\<close>

text \<open>
  The examples run on a library that knows the location UTC only and the timestamps of
  January 1, 2024 listed here, with their Unix times; it formats an instant as hours and
  minutes of the UTC day.
\<close>

definition example_times :: "(string \<times> int) list" where
  "example_times =
     [(''2024-01-01T00:00'', 1704067200 * Second),
      (''2024-01-01T03:00'', 1704078000 * Second),
      (''2024-01-01T05:00'', 1704085200 * Second),
      (''2024-01-01T06:00'', 1704088800 * Second),
      (''2024-01-01T12:00'', 1704110400 * Second),
      (''2024-01-01T18:00'', 1704132000 * Second),
      (''2024-01-01T21:00'', 1704142800 * Second)]"

definition two_digits :: "int \<Rightarrow> string" where
  "two_digits n = (if n < 10 then CHR ''0'' # itoa n else itoa n)"

definition example_lib :: "unit timelib" where
  "example_lib =
     \<lparr>LoadLocation = (\<lambda>name. if name = ''UTC'' then Some () else None),
      UTC = (),
      ParseInLocation = (\<lambda>tz s. map_of example_times s),
      Format = (\<lambda>tz t. let m = (t div Minute) mod 1440
                        in two_digits (m div 60) @ '':'' @ two_digits (m mod 60))\<rparr>"

section \<open>API and display types\<close>

record GeoLocation =
  Name :: string
  Latitude :: real
  Longitude :: real
  Country :: string
  CountryCode :: string
  Timezone :: string

record geoResponse =
  Results :: "GeoLocation list"

record currentRaw =
  Time :: string
  Temperature :: real
  FeelsLike :: real
  Humidity :: int
  WeatherCode :: int
  CloudCover :: int
  WindSpeed :: real
  WindDir :: int
  Pressure :: real
  DewPoint :: real
  UVIndex :: real

record dailyRaw =
  Time :: "string list"
  WeatherCode :: "int list"
  TempMax :: "real list"
  TempMin :: "real list"
  WindMax :: "real list"
  PrecipProbMax :: "int list"
  Sunrise :: "string list"
  Sunset :: "string list"

record hourlyRaw =
  Time :: "string list"
  Temperature :: "real list"
  PrecipProb :: "int list"
  WeatherCode :: "int list"
  WindSpeed :: "real list"

record forecastRaw =
  Current :: currentRaw
  Daily :: dailyRaw
  Hourly :: hourlyRaw

record CurrentDisplay =
  Time :: string
  Temp :: real
  FeelsLike :: real
  Humidity :: int
  Description :: string
  Icon :: string
  CloudCover :: int
  WindSpeed :: real
  WindDir :: int
  Pressure :: real
  DewPoint :: real
  UVIndex :: real

record ForecastDay =
  Date :: string
  Description :: string
  Icon :: string
  TempMax :: real
  TempMin :: real
  WindMax :: real
  PrecipProb :: int

record HourlyPoint =
  Time :: string
  Temp :: real
  PrecipProb :: int
  Description :: string
  Icon :: string
  WindSpeed :: real

record OutfitItem =
  Icon :: string
  Label :: string
  Note :: string
  Color :: string

record OutfitAdvice =
  Headline :: string
  Items :: "OutfitItem list"
  TempTier :: string

record ModelReading =
  Model :: string
  Temp :: real
  Humidity :: int
  WindSpeed :: real
  Pressure :: real
  WeatherCode :: int
  Available :: bool
  Err :: string

record ConsensusInfo =
  Models :: "ModelReading list"
  AvailCount :: int
  AvgTemp :: real
  AvgHumidity :: int
  AvgWind :: real
  AvgPressure :: real
  MinTemp :: real
  MaxTemp :: real
  Spread :: real
  Agreement :: string
  AgreePct :: int

text \<open>A \<open>nil\<close> pointer field of the decoded model response is \<open>None\<close>.\<close>

record modelCurrentRaw =
  Temp :: "real option"
  Humidity :: "int option"
  Wind :: "real option"
  Pressure :: "real option"
  WMOCode :: "int option"

record modelResponse =
  Current :: modelCurrentRaw

record WeatherInfo =
  CityName :: string
  Country :: string
  CountryCode :: string
  TempUnit :: string
  WindUnit :: string
  Current :: CurrentDisplay
  Forecast :: "ForecastDay list"
  Hourly :: "HourlyPoint list"
  Sun :: SunBar
  Consensus :: "ConsensusInfo option"
  Outfit :: OutfitAdvice

text \<open>The zero values that Go gives to variables declared without an initialiser.\<close>

definition zero_geoResponse :: geoResponse where
  "zero_geoResponse = \<lparr>Results = []\<rparr>"

definition zero_forecastRaw :: forecastRaw where
  "zero_forecastRaw =
     \<lparr>forecastRaw.Current =
        \<lparr>currentRaw.Time = '''', currentRaw.Temperature = 0, currentRaw.FeelsLike = 0,
         currentRaw.Humidity = 0, currentRaw.WeatherCode = 0, currentRaw.CloudCover = 0,
         currentRaw.WindSpeed = 0, currentRaw.WindDir = 0, currentRaw.Pressure = 0,
         currentRaw.DewPoint = 0, currentRaw.UVIndex = 0\<rparr>,
      forecastRaw.Daily =
        \<lparr>dailyRaw.Time = [], dailyRaw.WeatherCode = [], dailyRaw.TempMax = [],
         dailyRaw.TempMin = [], dailyRaw.WindMax = [], dailyRaw.PrecipProbMax = [],
         dailyRaw.Sunrise = [], dailyRaw.Sunset = []\<rparr>,
      forecastRaw.Hourly =
        \<lparr>hourlyRaw.Time = [], hourlyRaw.Temperature = [], hourlyRaw.PrecipProb = [],
         hourlyRaw.WeatherCode = [], hourlyRaw.WindSpeed = []\<rparr>\<rparr>"

definition zero_modelResponse :: modelResponse where
  "zero_modelResponse =
     \<lparr>modelResponse.Current =
        \<lparr>modelCurrentRaw.Temp = None, modelCurrentRaw.Humidity = None, modelCurrentRaw.Wind = None,
         modelCurrentRaw.Pressure = None, modelCurrentRaw.WMOCode = None\<rparr>\<rparr>"

definition zero_SunBar :: SunBar where
  "zero_SunBar =
     \<lparr>SunriseTime = '''', SunsetTime = '''', CurrentTime = '''', SunPositionPct = 0, IsDay = False,
      DaylightHours = '''', MoonPhase = 0, MoonPhaseName = ''''\<rparr>"

definition zero_OutfitAdvice :: OutfitAdvice where
  "zero_OutfitAdvice = \<lparr>Headline = '''', Items = [], TempTier = ''''\<rparr>"

section \<open>Units and weather codes\<close>

text \<open>The degree sign is the two bytes \<open>0xC2 0xB0\<close> of its UTF-8 encoding.\<close>

definition TempUnitSymbol :: "string \<Rightarrow> string" where
  "TempUnitSymbol units =
     (if units = ''imperial'' then [CHR 0xC2, CHR 0xB0] @ ''F'' else [CHR 0xC2, CHR 0xB0] @ ''C'')"

definition WindUnitLabel :: "string \<Rightarrow> string" where
  "WindUnitLabel units = (if units = ''imperial'' then ''mph'' else ''km/h'')"

definition WMODescription :: "int \<Rightarrow> string" where
  "WMODescription code =
     (if code = 0 then ''Clear sky''
      else if code = 1 then ''Mainly clear''
      else if code = 2 then ''Partly cloudy''
      else if code = 3 then ''Overcast''
      else if code = 45 \<or> code = 48 then ''Fog''
      else if code \<ge> 51 \<and> code \<le> 53 then ''Light drizzle''
      else if code = 55 then ''Dense drizzle''
      else if code = 61 then ''Slight rain''
      else if code = 63 then ''Moderate rain''
      else if code = 65 then ''Heavy rain''
      else if code = 71 then ''Slight snow''
      else if code = 73 then ''Moderate snow''
      else if code = 75 then ''Heavy snow''
      else if code = 77 then ''Snow grains''
      else if code \<ge> 80 \<and> code \<le> 82 then ''Rain showers''
      else if code \<ge> 85 \<and> code \<le> 86 then ''Snow showers''
      else if code = 95 then ''Thunderstorm''
      else if code = 96 \<or> code = 99 then ''Thunderstorm with hail''
      else ''Unknown'')"

definition WMOIconClass :: "int \<Rightarrow> string" where
  "WMOIconClass code =
     (if code = 0 then ''wi-day-sunny''
      else if code = 1 then ''wi-day-sunny-overcast''
      else if code = 2 then ''wi-day-cloudy''
      else if code = 3 then ''wi-cloudy''
      else if code = 45 \<or> code = 48 then ''wi-fog''
      else if code \<ge> 51 \<and> code \<le> 53 then ''wi-sprinkle''
      else if code = 55 then ''wi-rain-mix''
      else if code = 61 then ''wi-rain-mix''
      else if code = 63 then ''wi-rain''
      else if code = 65 then ''wi-rain-wind''
      else if code = 71 then ''wi-snow''
      else if code = 73 then ''wi-snow''
      else if code = 75 then ''wi-snow-wind''
      else if code = 77 then ''wi-snowflake-cold''
      else if code \<ge> 80 \<and> code \<le> 82 then ''wi-showers''
      else if code \<ge> 85 \<and> code \<le> 86 then ''wi-snow''
      else if code = 95 then ''wi-thunderstorm''
      else if code = 96 \<or> code = 99 then ''wi-storm-showers''
      else ''wi-na'')"

definition safeInt :: "int list \<Rightarrow> nat \<Rightarrow> int" where
  "safeInt s i = (if i < length s then s ! i else 0)"

definition safeFloat :: "real list \<Rightarrow> nat \<Rightarrow> real" where
  "safeFloat s i = (if i < length s then s ! i else 0)"

section \<open>Forecast aggregator\<close>

text \<open>
  The daily loop of \<open>GetWeather\<close>, over the indexed entries of \<open>raw.Daily.Time\<close>.  It
  checks the index against the lengths of \<open>WeatherCode\<close>, \<open>TempMax\<close> and \<open>PrecipProbMax\<close>;
  every element read goes through \<open>index\<close>, which panics out of range as Go does.  The
  fields of the composite literal are evaluated in their order.
\<close>

fun forecast_loop :: "dailyRaw \<Rightarrow> (nat \<times> string) list \<Rightarrow> ForecastDay list \<Rightarrow> panic + ForecastDay list" where
  "forecast_loop daily [] forecast = Inr forecast"
| "forecast_loop daily ((i, date) # rest) forecast =
     (if i \<ge> length (dailyRaw.WeatherCode daily) \<or> i \<ge> length (dailyRaw.TempMax daily)
      then Inr forecast
      else
        let precipProb =
              (if i < length (dailyRaw.PrecipProbMax daily) then dailyRaw.PrecipProbMax daily ! i else 0)
        in case index (dailyRaw.WeatherCode daily) (int i) of Inl p \<Rightarrow> Inl p | Inr code \<Rightarrow>
           case index (dailyRaw.TempMax daily) (int i) of Inl p \<Rightarrow> Inl p | Inr tempMax \<Rightarrow>
           case index (dailyRaw.TempMin daily) (int i) of Inl p \<Rightarrow> Inl p | Inr tempMin \<Rightarrow>
           case index (dailyRaw.WindMax daily) (int i) of Inl p \<Rightarrow> Inl p | Inr windMax \<Rightarrow>
             forecast_loop daily rest
               (forecast @
                 [\<lparr>ForecastDay.Date = date,
                   ForecastDay.Description = WMODescription code,
                   ForecastDay.Icon = WMOIconClass code,
                   ForecastDay.TempMax = tempMax,
                   ForecastDay.TempMin = tempMin,
                   ForecastDay.WindMax = windMax,
                   ForecastDay.PrecipProb = precipProb\<rparr>]))"

definition dailyForecast :: "dailyRaw \<Rightarrow> panic + ForecastDay list" where
  "dailyForecast daily = forecast_loop daily (enumerate 0 (dailyRaw.Time daily)) []"

text \<open>
  The loop of \<open>parseHourly\<close>, over the indexed entries of \<open>h.Time\<close>: an unparsable timestamp
  and one before now are skipped, and the loop ends at the first kept timestamp that finds
  24 points collected.
\<close>

fun parseHourly_loop ::
  "'tz timelib \<Rightarrow> 'tz \<Rightarrow> hourlyRaw \<Rightarrow> 'tz Time \<Rightarrow> (nat \<times> string) list \<Rightarrow> HourlyPoint list
     \<Rightarrow> HourlyPoint list" where
  "parseHourly_loop L tz h now [] points = points"
| "parseHourly_loop L tz h now ((i, ts) # rest) points =
     (case ParseInLocation L tz ts of
        None \<Rightarrow> parseHourly_loop L tz h now rest points
      | Some u \<Rightarrow>
          let t = MkTime u tz
          in if time_Before t now then parseHourly_loop L tz h now rest points
             else if length points \<ge> 24 then points
             else
               let wc = safeInt (hourlyRaw.WeatherCode h) i;
                   pp = safeInt (hourlyRaw.PrecipProb h) i;
                   ws = safeFloat (hourlyRaw.WindSpeed h) i;
                   temp = safeFloat (hourlyRaw.Temperature h) i
               in parseHourly_loop L tz h now rest
                    (points @
                      [\<lparr>HourlyPoint.Time = time_Format L t,
                        HourlyPoint.Temp = temp,
                        HourlyPoint.PrecipProb = pp,
                        HourlyPoint.Description = WMODescription wc,
                        HourlyPoint.Icon = WMOIconClass wc,
                        HourlyPoint.WindSpeed = ws\<rparr>]))"

definition parseHourly :: "'tz timelib \<Rightarrow> hourlyRaw \<Rightarrow> string \<Rightarrow> string \<Rightarrow> HourlyPoint list" where
  "parseHourly L h currentTimeStr timezone =
     (let tz = loadLocationOrUTC L timezone
      in case ParseInLocation L tz currentTimeStr of
           None \<Rightarrow> []
         | Some now \<Rightarrow> parseHourly_loop L tz h (MkTime now tz) (enumerate 0 (hourlyRaw.Time h)) [])"

text \<open>
  An \<open>HourlyPoint\<close> keeps only the \<open>15:04\<close> label of its time.  \<open>hourlyInstants\<close> follows the
  same loop and collects the instants behind the labels; \<open>n\<close> is the number of points
  collected so far.
\<close>

fun hourlyInstants :: "'tz timelib \<Rightarrow> 'tz \<Rightarrow> int \<Rightarrow> string list \<Rightarrow> nat \<Rightarrow> int list" where
  "hourlyInstants L tz now [] n = []"
| "hourlyInstants L tz now (ts # rest) n =
     (case ParseInLocation L tz ts of
        None \<Rightarrow> hourlyInstants L tz now rest n
      | Some u \<Rightarrow>
          if u < now then hourlyInstants L tz now rest n
          else if n \<ge> 24 then []
          else u # hourlyInstants L tz now rest (n + 1))"

definition parseHourly_instants :: "'tz timelib \<Rightarrow> hourlyRaw \<Rightarrow> string \<Rightarrow> string \<Rightarrow> int list" where
  "parseHourly_instants L h currentTimeStr timezone =
     (let tz = loadLocationOrUTC L timezone
      in case ParseInLocation L tz currentTimeStr of
           None \<Rightarrow> []
         | Some now \<Rightarrow> hourlyInstants L tz now (hourlyRaw.Time h) 0)"

section \<open>Consensus engine\<close>

text \<open>
  A request of the pipeline stands for its URL: the geocoding search of a city, the
  forecast of a place (latitude, longitude, temperature unit, wind unit, time zone) and the
  same for one forecast model.  The upstream services are a parameter: the outcome of the
  \<open>n\<close>-th \<open>HTTP.Get\<close> of a request, and the JSON decoders of the three response types.
\<close>

datatype request =
  GeoRequest string
| ForecastRequest real real string string string
| ModelRequest real real string string string string

record upstream =
  HTTPGet :: "request \<Rightarrow> nat \<Rightarrow> http_result"
  decodeGeo :: "string \<Rightarrow> string + geoResponse"
  decodeForecast :: "string \<Rightarrow> string + forecastRaw"
  decodeModel :: "string \<Rightarrow> string + modelResponse"

text \<open>The model names and parameters; \<open>e\<close> with an acute accent is the two bytes \<open>0xC3 0xA9\<close>.\<close>

definition forecastModels :: "(string \<times> string) list" where
  "forecastModels =
     [(''ECMWF'', ''ecmwf_ifs025''),
      (''ICON'', ''icon_seamless''),
      (''M'' @ [CHR 0xC3, CHR 0xA9] @ ''t'' @ [CHR 0xC3, CHR 0xA9] @ ''o-France'', ''meteofrance_seamless''),
      (''MET Norway'', ''metno_seamless'')]"

definition fetchModel ::
  "upstream \<Rightarrow> string \<Rightarrow> string \<Rightarrow> real \<Rightarrow> real \<Rightarrow> string \<Rightarrow> string \<Rightarrow> string \<Rightarrow> ModelReading" where
  "fetchModel U name modelParam lat lon timezone tempUnit windUnit =
     (let r = \<lparr>Model = name, Temp = 0, Humidity = 0, WindSpeed = 0, Pressure = 0, WeatherCode = 0,
                Available = False, Err = ''''\<rparr>
      in case getJSON (HTTPGet U (ModelRequest lat lon tempUnit windUnit timezone modelParam))
                (decodeModel U) zero_modelResponse of
           Inl err \<Rightarrow> r\<lparr>Err := Error err\<rparr>
         | Inr resp \<Rightarrow>
             let cur = modelResponse.Current resp
             in case (modelCurrentRaw.Temp cur, modelCurrentRaw.Humidity cur) of
                  (Some temp, Some humidity) \<Rightarrow>
                    r\<lparr>ModelReading.Temp := temp,
                      ModelReading.Humidity := humidity,
                      ModelReading.WindSpeed :=
                        (case modelCurrentRaw.Wind cur of Some w \<Rightarrow> w | None \<Rightarrow> 0),
                      ModelReading.Pressure :=
                        (case modelCurrentRaw.Pressure cur of Some p \<Rightarrow> p | None \<Rightarrow> 0),
                      ModelReading.WeatherCode :=
                        (case modelCurrentRaw.WMOCode cur of Some c \<Rightarrow> c | None \<Rightarrow> 0),
                      Available := True\<rparr>
                | _ \<Rightarrow> r\<lparr>Err := ''incomplete data''\<rparr>)"

text \<open>The largest finite \<open>float64\<close>.\<close>

definition MaxFloat64 :: real where
  "MaxFloat64 = (2 ^ 53 - 1) * 2 ^ 971"

text \<open>The local variables of the summing loop of \<open>FetchConsensus\<close>, and its body.\<close>

record accum =
  sumTemp :: real
  sumWind :: real
  sumPressure :: real
  sumHumidity :: int
  count :: int
  minTemp :: real
  maxTemp :: real

definition sums_init :: accum where
  "sums_init =
     \<lparr>sumTemp = 0, sumWind = 0, sumPressure = 0, sumHumidity = 0, count = 0,
      minTemp = MaxFloat64, maxTemp = - MaxFloat64\<rparr>"

definition sums_step :: "ModelReading \<Rightarrow> accum \<Rightarrow> accum" where
  "sums_step r s =
     (if Available r
      then \<lparr>sumTemp = sumTemp s + ModelReading.Temp r,
            sumWind = sumWind s + ModelReading.WindSpeed r,
            sumPressure = sumPressure s + ModelReading.Pressure r,
            sumHumidity = sumHumidity s + ModelReading.Humidity r,
            count = count s + 1,
            minTemp = (if ModelReading.Temp r < minTemp s then ModelReading.Temp r else minTemp s),
            maxTemp = (if ModelReading.Temp r > maxTemp s then ModelReading.Temp r else maxTemp s)\<rparr>
      else s)"

text \<open>
  The four fetches run in parallel, each writing its own element of \<open>readings\<close>, and the
  function waits for all of them: \<open>readings\<close> is the list of the four results in the order
  of \<open>forecastModels\<close>.
\<close>

definition FetchConsensus ::
  "upstream \<Rightarrow> real \<Rightarrow> real \<Rightarrow> string \<Rightarrow> string \<Rightarrow> string \<Rightarrow> ConsensusInfo" where
  "FetchConsensus U lat lon timezone tempUnit windUnit =
     (let readings =
            map (\<lambda>(name, param). fetchModel U name param lat lon timezone tempUnit windUnit)
              forecastModels;
          cons = \<lparr>Models = readings, AvailCount = 0, AvgTemp = 0, AvgHumidity = 0, AvgWind = 0,
                   AvgPressure = 0, MinTemp = 0, MaxTemp = 0, Spread = 0, Agreement = '''',
                   AgreePct = 0\<rparr>;
          s = fold sums_step readings sums_init
      in if count s = 0 then cons
         else
           let minT = math_Round (minTemp s * 10) / 10;
               maxT = math_Round (maxTemp s * 10) / 10;
               spread = math_Round ((maxT - minT) * 10) / 10;
               pct = 100 - go_int (spread * 12);
               pct = (if pct < 0 then 0 else pct)
           in cons\<lparr>AvailCount := count s,
                   MinTemp := minT,
                   MaxTemp := maxT,
                   AvgTemp := math_Round (sumTemp s / of_int (count s) * 10) / 10,
                   AvgHumidity := go_quo (sumHumidity s) (count s),
                   AvgWind := math_Round (sumWind s / of_int (count s) * 10) / 10,
                   AvgPressure := math_Round (sumPressure s / of_int (count s) * 10) / 10,
                   Spread := spread,
                   AgreePct := pct,
                   Agreement :=
                     (if pct \<ge> 80 then ''High'' else if pct \<ge> 50 then ''Moderate'' else ''Low'')\<rparr>)"

section \<open>Geocoding and the report\<close>

datatype weather_error =
  GeocodeError gateway_error
| CityNotFound string
| ForecastError gateway_error

text \<open>A call either panics, returns an error, or returns its value.\<close>

datatype 'a outcome = Panicked panic | Failed weather_error | Returned 'a

definition Geocode :: "upstream \<Rightarrow> string \<Rightarrow> weather_error + GeoLocation" where
  "Geocode U city =
     (case getJSON (HTTPGet U (GeoRequest city)) (decodeGeo U) zero_geoResponse of
        Inl err \<Rightarrow> Inl (GeocodeError err)
      | Inr geo \<Rightarrow>
          (case Results geo of
             [] \<Rightarrow> Inl (CityNotFound city)
           | loc # _ \<Rightarrow> Inr loc))"

text \<open>
  \<open>BuildOutfit\<close> is a pure function of the report that no property below looks into; it is
  a parameter of \<open>GetWeather\<close>.
\<close>

definition GetWeather ::
  "'tz timelib \<Rightarrow> upstream \<Rightarrow> (WeatherInfo \<Rightarrow> OutfitAdvice) \<Rightarrow> string \<Rightarrow> string \<Rightarrow> WeatherInfo outcome" where
  "GetWeather L U BuildOutfit city units =
     (case Geocode U city of
        Inl err \<Rightarrow> Failed err
      | Inr loc \<Rightarrow>
          let tempUnit = (if units = ''imperial'' then ''fahrenheit'' else ''celsius'');
              windUnit = (if units = ''imperial'' then ''mph'' else ''kmh'')
          in case getJSON
                    (HTTPGet U (ForecastRequest (Latitude loc) (Longitude loc) tempUnit windUnit (Timezone loc)))
                    (decodeForecast U) zero_forecastRaw of
               Inl err \<Rightarrow> Failed (ForecastError err)
             | Inr raw \<Rightarrow>
                 let cur = forecastRaw.Current raw;
                     daily = forecastRaw.Daily raw;
                     info =
                       \<lparr>CityName = Name loc,
                        Country = GeoLocation.Country loc,
                        CountryCode = GeoLocation.CountryCode loc,
                        TempUnit = TempUnitSymbol units,
                        WindUnit = WindUnitLabel units,
                        Current =
                          \<lparr>CurrentDisplay.Time = currentRaw.Time cur,
                           CurrentDisplay.Temp = currentRaw.Temperature cur,
                           CurrentDisplay.FeelsLike = currentRaw.FeelsLike cur,
                           CurrentDisplay.Humidity = currentRaw.Humidity cur,
                           CurrentDisplay.Description = WMODescription (currentRaw.WeatherCode cur),
                           CurrentDisplay.Icon = WMOIconClass (currentRaw.WeatherCode cur),
                           CurrentDisplay.CloudCover = currentRaw.CloudCover cur,
                           CurrentDisplay.WindSpeed = currentRaw.WindSpeed cur,
                           CurrentDisplay.WindDir = currentRaw.WindDir cur,
                           CurrentDisplay.Pressure = currentRaw.Pressure cur,
                           CurrentDisplay.DewPoint = currentRaw.DewPoint cur,
                           CurrentDisplay.UVIndex = currentRaw.UVIndex cur\<rparr>,
                        Forecast = [],
                        Hourly = [],
                        Sun = zero_SunBar,
                        Consensus = None,
                        Outfit = zero_OutfitAdvice\<rparr>
                 in case dailyForecast daily of
                      Inl p \<Rightarrow> Panicked p
                    | Inr forecast \<Rightarrow>
                        let info = info\<lparr>Forecast := forecast\<rparr>;
                            info =
                              (if length (dailyRaw.Sunrise daily) > 0 \<and> length (dailyRaw.Sunset daily) > 0
                               then info\<lparr>Sun := buildSunBar L (currentRaw.Time cur)
                                            (dailyRaw.Sunrise daily ! 0) (dailyRaw.Sunset daily ! 0)
                                            (Timezone loc)\<rparr>
                               else info);
                            info = info\<lparr>Hourly := parseHourly L (forecastRaw.Hourly raw)
                                            (currentRaw.Time cur) (Timezone loc)\<rparr>;
                            info = info\<lparr>Outfit := BuildOutfit info\<rparr>;
                            info = info\<lparr>Consensus :=
                                     Some (FetchConsensus U (Latitude loc) (Longitude loc) (Timezone loc)
                                             tempUnit windUnit)\<rparr>
                        in Returned info)"

section \<open>Example inputs\<close>

text \<open>
  A daily block whose \<open>temperature_2m_min\<close> array is missing, an hourly block whose
  timestamps are in descending order, and one in ascending order with an unparsable entry and
  arrays of different lengths.
\<close>

definition short_daily :: dailyRaw where
  "short_daily =
     \<lparr>dailyRaw.Time = [''2024-01-01''], dailyRaw.WeatherCode = [0], dailyRaw.TempMax = [10],
      dailyRaw.TempMin = [], dailyRaw.WindMax = [12], dailyRaw.PrecipProbMax = [],
      dailyRaw.Sunrise = [], dailyRaw.Sunset = []\<rparr>"

definition unsorted_hourly :: hourlyRaw where
  "unsorted_hourly =
     \<lparr>hourlyRaw.Time = [''2024-01-01T05:00'', ''2024-01-01T03:00''],
      hourlyRaw.Temperature = [1, 2], hourlyRaw.PrecipProb = [0, 0],
      hourlyRaw.WeatherCode = [0, 0], hourlyRaw.WindSpeed = [3, 4]\<rparr>"

definition sorted_hourly :: hourlyRaw where
  "sorted_hourly =
     \<lparr>hourlyRaw.Time = [''2024-01-01T00:00'', ''2024-01-01T03:00'', ''tomorrow'', ''2024-01-01T05:00'',
                         ''2024-01-01T06:00''],
      hourlyRaw.Temperature = [1, 2, 3, 4, 5], hourlyRaw.PrecipProb = [0, 10, 20, 30],
      hourlyRaw.WeatherCode = [0, 1, 2], hourlyRaw.WindSpeed = []\<rparr>"

text \<open>
  An upstream for the examples.  The geocoder knows Paris; the forecast service answers
  \<open>example_forecast\<close>; ECMWF reports the temperature \<open>a\<close>, ICON reports \<open>b\<close> after one
  request that times out, Meteo-France answers 503 and MET Norway answers without a
  temperature.  \<open>dead_upstream\<close> refuses every connection.
\<close>

definition paris :: GeoLocation where
  "paris = \<lparr>Name = ''Paris'', Latitude = 48.8534, Longitude = 2.3488, Country = ''France'',
             CountryCode = ''FR'', Timezone = ''UTC''\<rparr>"

definition example_forecast :: forecastRaw where
  "example_forecast =
     \<lparr>forecastRaw.Current =
        \<lparr>currentRaw.Time = ''2024-01-01T03:00'', currentRaw.Temperature = 11, currentRaw.FeelsLike = 9,
         currentRaw.Humidity = 55, currentRaw.WeatherCode = 2, currentRaw.CloudCover = 40,
         currentRaw.WindSpeed = 14, currentRaw.WindDir = 270, currentRaw.Pressure = 1013,
         currentRaw.DewPoint = 3, currentRaw.UVIndex = 1\<rparr>,
      forecastRaw.Daily =
        \<lparr>dailyRaw.Time = [''2024-01-01'', ''2024-01-02''], dailyRaw.WeatherCode = [2, 61],
         dailyRaw.TempMax = [12, 9], dailyRaw.TempMin = [4, 3], dailyRaw.WindMax = [20, 31],
         dailyRaw.PrecipProbMax = [10], dailyRaw.Sunrise = [''2024-01-01T06:00''],
         dailyRaw.Sunset = [''2024-01-01T18:00'']\<rparr>,
      forecastRaw.Hourly = sorted_hourly\<rparr>"

definition example_upstream :: "real \<Rightarrow> real \<Rightarrow> upstream" where
  "example_upstream a b =
     \<lparr>HTTPGet = (\<lambda>req n.
        case req of
          GeoRequest city \<Rightarrow> if city = ''Paris'' then Response 200 ''geo: Paris'' else Response 200 ''geo: none''
        | ForecastRequest lat lon tempUnit windUnit timezone \<Rightarrow> Response 200 ''forecast''
        | ModelRequest lat lon tempUnit windUnit timezone modelParam \<Rightarrow>
            if modelParam = ''ecmwf_ifs025'' then Response 200 ''model: a''
            else if modelParam = ''icon_seamless''
              then (if n = 0 then NetworkError ''timeout'' else Response 200 ''model: b'')
            else if modelParam = ''meteofrance_seamless'' then Response 503 ''overloaded''
            else Response 200 ''model: null''),
      decodeGeo = (\<lambda>body.
        if body = ''geo: Paris'' then Inr \<lparr>Results = [paris]\<rparr>
        else if body = ''geo: none'' then Inr \<lparr>Results = []\<rparr>
        else Inl ''invalid character''),
      decodeForecast = (\<lambda>body. if body = ''forecast'' then Inr example_forecast else Inl ''invalid character''),
      decodeModel = (\<lambda>body.
        if body = ''model: a''
          then Inr \<lparr>modelResponse.Current =
                 \<lparr>modelCurrentRaw.Temp = Some a, modelCurrentRaw.Humidity = Some 50,
                  modelCurrentRaw.Wind = Some 5, modelCurrentRaw.Pressure = Some 1013,
                  modelCurrentRaw.WMOCode = Some 2\<rparr>\<rparr>
        else if body = ''model: b''
          then Inr \<lparr>modelResponse.Current =
                 \<lparr>modelCurrentRaw.Temp = Some b, modelCurrentRaw.Humidity = Some 61,
                  modelCurrentRaw.Wind = None, modelCurrentRaw.Pressure = Some 1015,
                  modelCurrentRaw.WMOCode = None\<rparr>\<rparr>
        else if body = ''model: null''
          then Inr \<lparr>modelResponse.Current =
                 \<lparr>modelCurrentRaw.Temp = None, modelCurrentRaw.Humidity = Some 70,
                  modelCurrentRaw.Wind = None, modelCurrentRaw.Pressure = None,
                  modelCurrentRaw.WMOCode = None\<rparr>\<rparr>
        else Inl ''invalid character'')\<rparr>"

definition dead_upstream :: upstream where
  "dead_upstream =
     \<lparr>HTTPGet = (\<lambda>req n. NetworkError ''connection refused''),
      decodeGeo = (\<lambda>body. Inl ''unexpected end of JSON input''),
      decodeForecast = (\<lambda>body. Inl ''unexpected end of JSON input''),
      decodeModel = (\<lambda>body. Inl ''unexpected end of JSON input'')\<rparr>"

text \<open>
  An upstream on which every model fails in its own way: ECMWF times out on both requests,
  ICON answers 503, Meteo-France answers a temperature without a humidity and MET Norway a
  humidity without a temperature.
\<close>

definition failing_upstream :: upstream where
  "failing_upstream =
     \<lparr>HTTPGet = (\<lambda>req n.
        case req of
          GeoRequest city \<Rightarrow> NetworkError ''timeout''
        | ForecastRequest lat lon tempUnit windUnit timezone \<Rightarrow> NetworkError ''timeout''
        | ModelRequest lat lon tempUnit windUnit timezone modelParam \<Rightarrow>
            if modelParam = ''ecmwf_ifs025'' then NetworkError ''timeout''
            else if modelParam = ''icon_seamless'' then Response 503 ''overloaded''
            else if modelParam = ''meteofrance_seamless'' then Response 200 ''model: no humidity''
            else Response 200 ''model: no temperature''),
      decodeGeo = (\<lambda>body. Inl ''invalid character''),
      decodeForecast = (\<lambda>body. Inl ''invalid character''),
      decodeModel = (\<lambda>body.
        if body = ''model: no humidity''
          then Inr \<lparr>modelResponse.Current =
                 \<lparr>modelCurrentRaw.Temp = Some 11, modelCurrentRaw.Humidity = None,
                  modelCurrentRaw.Wind = Some 7, modelCurrentRaw.Pressure = Some 1012,
                  modelCurrentRaw.WMOCode = Some 3\<rparr>\<rparr>
        else if body = ''model: no temperature''
          then Inr \<lparr>modelResponse.Current =
                 \<lparr>modelCurrentRaw.Temp = None, modelCurrentRaw.Humidity = Some 70,
                  modelCurrentRaw.Wind = Some 7, modelCurrentRaw.Pressure = Some 1012,
                  modelCurrentRaw.WMOCode = Some 3\<rparr>\<rparr>
        else Inl ''invalid character'')\<rparr>"

section \<open>Report cache\<close>

text \<open>
  The cache is the map of \<open>main.go\<close>, from keys to entries; \<open>time.Now()\<close> is a parameter of
  each operation, an instant in nanoseconds.  The \<open>info\<close> of an entry is a pointer to a
  report: \<open>None\<close> is \<open>nil\<close>.
\<close>

record 'r cacheEntry =
  info :: "'r option"
  expires :: int
  createdAt :: int

type_synonym 'r cache = "string \<rightharpoonup> 'r cacheEntry"

definition cacheTTL :: duration where
  "cacheTTL = 10 * Minute"

definition cacheMaxSize :: nat where
  "cacheMaxSize = 200"

definition cacheCleanup :: duration where
  "cacheCleanup = 5 * Minute"

text \<open>\<open>strings.ToLower\<close> is a parameter.\<close>

definition cacheKey :: "(string \<Rightarrow> string) \<Rightarrow> string \<Rightarrow> string \<Rightarrow> string" where
  "cacheKey ToLower city units = ToLower city @ ''|'' @ units"

definition cacheGet :: "'r cache \<Rightarrow> int \<Rightarrow> string \<Rightarrow> 'r option" where
  "cacheGet cache now key =
     (case cache key of
        Some e \<Rightarrow> if now < expires e then info e else None
      | None \<Rightarrow> None)"

text \<open>
  The body of the loop of \<open>cacheSet\<close> that looks for the oldest entry, on the pair of its
  variables \<open>oldest\<close> and \<open>oldestTime\<close>.
\<close>

definition oldest_step :: "'r cache \<Rightarrow> string \<Rightarrow> string \<times> int \<Rightarrow> string \<times> int" where
  "oldest_step cache k acc =
     (case acc of (oldest, oldestTime) \<Rightarrow>
        (case cache k of
           None \<Rightarrow> (oldest, oldestTime)
         | Some e \<Rightarrow>
             if oldest = '''' \<or> createdAt e < oldestTime then (k, createdAt e)
             else (oldest, oldestTime)))"

text \<open>
  Go visits the keys of a map in an order of its choice: \<open>order\<close> is the order in which the
  loop of this call visits the keys of the cache.  \<open>now1\<close> and \<open>now2\<close> are the two readings of
  the clock that the new entry takes.
\<close>

definition cacheSet :: "'r cache \<Rightarrow> string list \<Rightarrow> string \<Rightarrow> 'r option \<Rightarrow> int \<Rightarrow> int \<Rightarrow> 'r cache" where
  "cacheSet cache order key report now1 now2 =
     (let cache =
            (if cache key = None \<and> card (dom cache) \<ge> cacheMaxSize
             then cache(fst (fold (oldest_step cache) order ('''', - 62135596800 * Second)) := None)
             else cache)
      in cache(key \<mapsto> \<lparr>info = report, expires = now1 + cacheTTL, createdAt = now2\<rparr>))"

text \<open>One pass of the cleanup goroutine.\<close>

definition cacheSweep :: "'r cache \<Rightarrow> int \<Rightarrow> 'r cache" where
  "cacheSweep cache now =
     (\<lambda>k. case cache k of
             None \<Rightarrow> None
           | Some e \<Rightarrow> if expires e < now then None else Some e)"

text \<open>
  The states of the cache: it starts empty, the request handler stores reports under keys
  made by \<open>cacheKey\<close>, and the cleanup goroutine sweeps.
\<close>

inductive cache_reachable :: "'r cache \<Rightarrow> bool" where
  start: "cache_reachable Map.empty"
| store: "cache_reachable cache \<Longrightarrow> distinct order \<Longrightarrow> set order = dom cache
    \<Longrightarrow> cache_reachable (cacheSet cache order (cacheKey ToLower city units) report now1 now2)"
| sweep: "cache_reachable cache \<Longrightarrow> cache_reachable (cacheSweep cache now)"

text \<open>
  What the loop for the oldest entry has established after visiting the keys \<open>S\<close>: nothing
  is chosen before the first key, and afterwards the chosen key is a visited one whose
  creation time is the least of the visited entries.
\<close>

definition oldest_inv :: "'r cache \<Rightarrow> string set \<Rightarrow> string \<times> int \<Rightarrow> bool" where
  "oldest_inv cache S acc =
     (case acc of (oldest, oldestTime) \<Rightarrow>
        if S = {} then oldest = ''''
        else oldest \<in> S \<and> oldest \<noteq> ''''
             \<and> (\<exists>e. cache oldest = Some e \<and> createdAt e = oldestTime)
             \<and> (\<forall>k \<in> S. \<forall>e. cache k = Some e \<longrightarrow> oldestTime \<le> createdAt e))"

text \<open>
  A cache for the examples, filled by the program itself: \<open>n\<close> calls of \<open>cacheSet\<close> at the
  instants \<open>0, 1, ...\<close>, under the keys of the cities \<open>""\<close>, \<open>a\<close>, \<open>aa\<close>, ...
\<close>

definition example_key :: "nat \<Rightarrow> string" where
  "example_key i = cacheKey (\<lambda>s. s) (replicate i CHR ''a'') ''metric''"

fun example_cache :: "nat \<Rightarrow> nat cache" where
  "example_cache 0 = Map.empty"
| "example_cache (Suc n) =
     cacheSet (example_cache n) (map example_key [0..<n]) (example_key n) (Some n) (int n) (int n)"

section \<open>Properties\<close>

subsection \<open>Sunrise/sunset bar\<close>

lemma time_Sub_mono: "unix_ns t \<le> unix_ns t' \<Longrightarrow> time_Sub t u \<le> time_Sub t' u"
  by (simp add: time_Sub_def Let_def minDuration_def maxDuration_def)

lemma time_Sub_neg: "unix_ns t < unix_ns u \<Longrightarrow> time_Sub t u < 0"
  by (simp add: time_Sub_def Let_def minDuration_def maxDuration_def)

lemma Minutes_mono: "d \<le> d' \<Longrightarrow> Minutes d \<le> Minutes d'"
  by (simp add: Minutes_def Minute_def Second_def divide_right_mono)

lemma Minutes_neg: "d < 0 \<Longrightarrow> Minutes d < 0"
  by (simp add: Minutes_def Minute_def Second_def)

lemma SunPositionPct_buildSunBar:
  "SunPositionPct (buildSunBar L cur sr ss z) =
     (let tz = loadLocationOrUTC L z;
          daylightMins = Minutes (time_Sub (parse L tz ss) (parse L tz sr));
          elapsed = Minutes (time_Sub (parse L tz cur) (parse L tz sr))
      in if daylightMins > 0 then max 0 (min 100 (elapsed / daylightMins * 100)) else 0)"
  by (simp add: buildSunBar_def Let_def)

lemma loadLocationOrUTC_example: "loadLocationOrUTC example_lib name = ()"
  by simp

lemma parse_example:
  "parse example_lib () ''2024-01-01T00:00'' = MkTime 1704067200000000000 ()"
  "parse example_lib () ''2024-01-01T03:00'' = MkTime 1704078000000000000 ()"
  "parse example_lib () ''2024-01-01T05:00'' = MkTime 1704085200000000000 ()"
  "parse example_lib () ''2024-01-01T06:00'' = MkTime 1704088800000000000 ()"
  "parse example_lib () ''2024-01-01T12:00'' = MkTime 1704110400000000000 ()"
  "parse example_lib () ''2024-01-01T18:00'' = MkTime 1704132000000000000 ()"
  "parse example_lib () ''2024-01-01T21:00'' = MkTime 1704142800000000000 ()"
  by (simp_all add: parse_def example_lib_def example_times_def Second_def)

lemma time_Sub_exact:
  assumes "- 9223372036854775808 \<le> a - b" and "a - b \<le> 9223372036854775807"
  shows "time_Sub (MkTime a z) (MkTime b z') = a - b"
  using assms by (simp add: time_Sub_def minDuration_def maxDuration_def)

lemma Minutes_numeral: "Minutes d = of_int d / 60000000000"
  by (simp add: Minutes_def Minute_def Second_def)

text \<open>
  C3 (as the code has it).  The day flag is true exactly when now lies strictly between
  sunrise and sunset: \<open>now.After(sunrise) && now.Before(sunset)\<close>.
\<close>

theorem IsDay_open_interval:
  "IsDay (buildSunBar L cur sr ss z) =
     (unix_ns (parse L (loadLocationOrUTC L z) sr) < unix_ns (parse L (loadLocationOrUTC L z) cur)
      \<and> unix_ns (parse L (loadLocationOrUTC L z) cur) < unix_ns (parse L (loadLocationOrUTC L z) ss))"
  by (simp add: buildSunBar_def Let_def time_After_def time_Before_def)

theorem IsDay_open_interval_witness:
  "IsDay (buildSunBar example_lib ''2024-01-01T12:00'' ''2024-01-01T06:00'' ''2024-01-01T18:00'' ''UTC'')
   \<and> \<not> IsDay (buildSunBar example_lib ''2024-01-01T06:00'' ''2024-01-01T06:00'' ''2024-01-01T18:00'' ''UTC'')
   \<and> \<not> IsDay (buildSunBar example_lib ''2024-01-01T18:00'' ''2024-01-01T06:00'' ''2024-01-01T18:00'' ''UTC'')
   \<and> \<not> IsDay (buildSunBar example_lib ''2024-01-01T21:00'' ''2024-01-01T06:00'' ''2024-01-01T18:00'' ''UTC'')"
  by (simp add: IsDay_open_interval loadLocationOrUTC_example parse_example)

text \<open>
  C3 (as stated) fails when now equals sunrise: with sunrise 06:00, sunset 18:00 and now
  06:00, now lies in the half-open interval from sunrise to sunset, and the day flag is
  false.
\<close>

theorem IsDay_at_sunrise_counterexample:
  "unix_ns (parse example_lib () ''2024-01-01T06:00'') \<le> unix_ns (parse example_lib () ''2024-01-01T06:00'')
   \<and> unix_ns (parse example_lib () ''2024-01-01T06:00'') < unix_ns (parse example_lib () ''2024-01-01T18:00'')
   \<and> \<not> IsDay (buildSunBar example_lib ''2024-01-01T06:00'' ''2024-01-01T06:00'' ''2024-01-01T18:00'' ''UTC'')"
  by (simp add: buildSunBar_def Let_def time_After_def time_Before_def parse_def example_lib_def
      example_times_def Second_def)

text \<open>
  C7 (as the code has it).  The position percentage lies between 0 and 100.  When the
  daylight duration (\<open>sunset.Sub(sunrise)\<close>, in minutes) is positive it is the elapsed share
  \<open>now.Sub(sunrise) / sunset.Sub(sunrise) * 100\<close> clamped to that range, and it is 0 when the
  daylight duration is zero or negative, where no division takes place.  Now before sunrise
  gives 0, and now after sunset gives 100 when the daylight duration is positive.
\<close>

theorem SunPositionPct_clamped:
  "let tz = loadLocationOrUTC L z;
       sunrise = parse L tz sr;
       sunset = parse L tz ss;
       now = parse L tz cur;
       daylightMins = Minutes (time_Sub sunset sunrise);
       elapsed = Minutes (time_Sub now sunrise);
       pct = SunPositionPct (buildSunBar L cur sr ss z)
   in 0 \<le> pct \<and> pct \<le> 100
      \<and> (0 < daylightMins \<longrightarrow> pct = max 0 (min 100 (elapsed / daylightMins * 100)))
      \<and> (daylightMins \<le> 0 \<longrightarrow> pct = 0)
      \<and> (time_Before now sunrise \<longrightarrow> pct = 0)
      \<and> (0 < daylightMins \<and> time_After now sunset \<longrightarrow> pct = 100)"
proof -
  define tz where "tz = loadLocationOrUTC L z"
  define sunrise where "sunrise = parse L tz sr"
  define sunset where "sunset = parse L tz ss"
  define now where "now = parse L tz cur"
  define daylightMins where "daylightMins = Minutes (time_Sub sunset sunrise)"
  define elapsed where "elapsed = Minutes (time_Sub now sunrise)"
  define pct where "pct = SunPositionPct (buildSunBar L cur sr ss z)"
  have pct: "pct = (if daylightMins > 0 then max 0 (min 100 (elapsed / daylightMins * 100)) else 0)"
    by (simp add: pct_def SunPositionPct_buildSunBar Let_def daylightMins_def elapsed_def
        sunrise_def sunset_def now_def tz_def)
  have range: "0 \<le> pct \<and> pct \<le> 100"
    by (simp add: pct)
  have before: "pct = 0" if "time_Before now sunrise"
  proof (cases "daylightMins > 0")
    case True
    from that have "elapsed < 0"
      unfolding elapsed_def by (intro Minutes_neg time_Sub_neg) (simp add: time_Before_def)
    then have "elapsed / daylightMins * 100 \<le> 0"
      using True by (simp add: divide_le_0_iff)
    then show ?thesis using True by (simp add: pct)
  next
    case False
    then show ?thesis by (simp add: pct)
  qed
  have after: "pct = 100" if "0 < daylightMins" and "time_After now sunset"
  proof -
    from that(2) have "daylightMins \<le> elapsed"
      unfolding daylightMins_def elapsed_def
      by (intro Minutes_mono time_Sub_mono) (simp add: time_After_def)
    then have "100 * daylightMins \<le> elapsed * 100" by simp
    then have "100 \<le> elapsed * 100 / daylightMins"
      using that(1) by (simp add: pos_le_divide_eq)
    then have "100 \<le> elapsed / daylightMins * 100" by simp
    then show ?thesis using that(1) by (simp add: pct)
  qed
  show ?thesis
    unfolding Let_def
    using pct range before after
    unfolding pct_def daylightMins_def elapsed_def sunrise_def sunset_def now_def tz_def
    by simp
qed

theorem SunPositionPct_clamped_witness:
  "SunPositionPct (buildSunBar example_lib ''2024-01-01T12:00'' ''2024-01-01T06:00'' ''2024-01-01T18:00'' ''UTC'') = 50
   \<and> SunPositionPct (buildSunBar example_lib ''2024-01-01T21:00'' ''2024-01-01T06:00'' ''2024-01-01T18:00'' ''UTC'') = 100
   \<and> SunPositionPct (buildSunBar example_lib ''2024-01-01T03:00'' ''2024-01-01T06:00'' ''2024-01-01T18:00'' ''UTC'') = 0
   \<and> SunPositionPct (buildSunBar example_lib ''2024-01-01T12:00'' ''2024-01-01T06:00'' ''2024-01-01T06:00'' ''UTC'') = 0"
proof (intro conjI)
  show "SunPositionPct (buildSunBar example_lib ''2024-01-01T12:00'' ''2024-01-01T06:00'' ''2024-01-01T18:00'' ''UTC'') = 50"
    using SunPositionPct_clamped [of example_lib "''UTC''" "''2024-01-01T06:00''" "''2024-01-01T18:00''" "''2024-01-01T12:00''"]
    by (simp add: Let_def loadLocationOrUTC_example parse_example time_Sub_exact Minutes_numeral)
  show "SunPositionPct (buildSunBar example_lib ''2024-01-01T21:00'' ''2024-01-01T06:00'' ''2024-01-01T18:00'' ''UTC'') = 100"
    using SunPositionPct_clamped [of example_lib "''UTC''" "''2024-01-01T06:00''" "''2024-01-01T18:00''" "''2024-01-01T21:00''"]
    by (simp add: Let_def loadLocationOrUTC_example parse_example time_Sub_exact Minutes_numeral time_After_def)
  show "SunPositionPct (buildSunBar example_lib ''2024-01-01T03:00'' ''2024-01-01T06:00'' ''2024-01-01T18:00'' ''UTC'') = 0"
    using SunPositionPct_clamped [of example_lib "''UTC''" "''2024-01-01T06:00''" "''2024-01-01T18:00''" "''2024-01-01T03:00''"]
    by (simp add: Let_def loadLocationOrUTC_example parse_example time_Sub_exact Minutes_numeral time_Before_def)
  show "SunPositionPct (buildSunBar example_lib ''2024-01-01T12:00'' ''2024-01-01T06:00'' ''2024-01-01T06:00'' ''UTC'') = 0"
    using SunPositionPct_clamped [of example_lib "''UTC''" "''2024-01-01T06:00''" "''2024-01-01T06:00''" "''2024-01-01T12:00''"]
    by (simp add: Let_def loadLocationOrUTC_example parse_example time_Sub_exact Minutes_numeral)
qed

text \<open>
  C7 (as stated) fails on its last clause when there is no daylight: with sunrise and sunset
  both at 06:00 and now at 12:00, now is after sunset and the percentage is 0, not 100.
\<close>

theorem SunPositionPct_no_daylight_counterexample:
  "time_After (parse example_lib () ''2024-01-01T12:00'') (parse example_lib () ''2024-01-01T06:00'')
   \<and> SunPositionPct
        (buildSunBar example_lib ''2024-01-01T12:00'' ''2024-01-01T06:00'' ''2024-01-01T06:00'' ''UTC'') = 0
   \<and> SunPositionPct
        (buildSunBar example_lib ''2024-01-01T12:00'' ''2024-01-01T06:00'' ''2024-01-01T06:00'' ''UTC'') \<noteq> 100"
  by (simp add: SunPositionPct_buildSunBar Let_def loadLocationOrUTC_example parse_example
      time_Sub_exact Minutes_numeral time_After_def)

subsection \<open>Wind compass\<close>

lemma go_rem_nonneg:
  assumes "0 \<le> a" and "0 < b"
  shows "0 \<le> go_rem a b \<and> go_rem a b < b"
proof (cases "a = 0")
  case True
  then show ?thesis using assms by (simp add: go_rem_def)
next
  case False
  then have "sgn a = 1" using assms by simp
  then show ?thesis using assms by (simp add: go_rem_def)
qed

lemma index_in_range:
  assumes "0 \<le> i" and "i < int (length xs)"
  shows "\<exists>x \<in> set xs. index xs i = Inr x"
proof -
  have "nat i < length xs" using assms by linarith
  then have "xs ! nat i \<in> set xs" by (rule nth_mem)
  then show ?thesis using assms by (auto simp: index_def)
qed

lemma WindCompass_nonneg:
  assumes "0 \<le> deg"
  shows "\<exists>d \<in> set dirs. WindCompass deg = Inr d"
proof -
  have "0 \<le> (real_of_int deg + 22.5) / 45.0" using assms by simp
  then have "0 \<le> go_int ((of_int deg + 22.5) / 45.0)" by (simp add: go_int_def)
  then have "0 \<le> go_rem (go_int ((of_int deg + 22.5) / 45.0)) 8
           \<and> go_rem (go_int ((of_int deg + 22.5) / 45.0)) 8 < 8"
    using go_rem_nonneg [of _ 8] by simp
  then have "\<exists>d \<in> set dirs. index dirs (go_rem (go_int ((of_int deg + 22.5) / 45.0)) 8) = Inr d"
    by (intro index_in_range) (simp_all add: dirs_def)
  then show ?thesis
    by (simp add: WindCompass_def Let_def)
qed

text \<open>
  C10.  The claim says that \<open>WindCompass\<close> returns one of the eight labels for every integer
  degree.  At \<open>deg = -90\<close> the code computes \<open>int(-67.5 / 45.0) = -1\<close> and \<open>-1 % 8 = -1\<close>, and
  \<open>dirs[-1]\<close> panics with an index out of range.
\<close>

theorem WindCompass_negative_panics:
  "WindCompass (- 90) = Inl (IndexOutOfRange (- 1) 8)"
  by (simp add: WindCompass_def go_int_def go_rem_def index_def dirs_def)

subsection \<open>Upstream gateway\<close>

lemma getJSON_traced_unfold:
  "getJSON_traced get decode v =
     (case get 0 of
        Response status body \<Rightarrow> (readResponse decode status body, [Get])
      | NetworkError err \<Rightarrow>
          (case get 1 of
             Response status body \<Rightarrow> (readResponse decode status body, [Get, Sleep Second, Get])
           | NetworkError err' \<Rightarrow> (Inl (RequestFailed err'), [Get, Sleep Second, Get])))"
proof -
  have two: "getJSON_loop get decode v (Suc (Suc 0)) e tr = (case e of None \<Rightarrow> Inr v | Some e \<Rightarrow> Inl e, tr)" for e tr
    by (subst getJSON_loop.simps) (simp add: maxAttempts_def)
  have one: "getJSON_loop get decode v (Suc 0) e tr =
      (case get (Suc 0) of
         Response status body \<Rightarrow> (readResponse decode status body, tr @ [Sleep Second, Get])
       | NetworkError err' \<Rightarrow> (Inl (RequestFailed err'), tr @ [Sleep Second, Get]))" for e tr
    by (subst getJSON_loop.simps) (simp add: maxAttempts_def two split: http_result.split)
  show ?thesis
    unfolding getJSON_traced_def
    by (subst getJSON_loop.simps) (simp add: maxAttempts_def one split: http_result.split)
qed

text \<open>
  C8.  \<open>getJSON\<close> makes at most two requests.  A response to the first request ends the
  call at once, whatever its status and body: there is no sleep and no second request.  A
  network-level failure of the first request is followed by one sleep of one second and one
  more request, whose outcome ends the call: a response is read as before, and a second
  network failure is returned as the error.  A response with a status outside 200..299 is an
  \<open>API error\<close> and a body that fails to decode is an error as well (\<open>decode failed\<close> for
  status 200); neither is retried.
\<close>

theorem getJSON_retry_policy:
  "count_list (snd (getJSON_traced get decode v)) Get \<le> 2
   \<and> (\<forall>status body. get 0 = Response status body \<longrightarrow>
         getJSON_traced get decode v = (readResponse decode status body, [Get]))
   \<and> (\<forall>err status body. get 0 = NetworkError err \<and> get 1 = Response status body \<longrightarrow>
         getJSON_traced get decode v = (readResponse decode status body, [Get, Sleep (1 * Second), Get]))
   \<and> (\<forall>err err'. get 0 = NetworkError err \<and> get 1 = NetworkError err' \<longrightarrow>
         getJSON_traced get decode v = (Inl (RequestFailed err'), [Get, Sleep (1 * Second), Get]))
   \<and> (\<forall>status body. status < 200 \<or> 299 < status \<longrightarrow>
         readResponse decode status body = Inl (APIError status (take 512 body)))
   \<and> (\<forall>status body e. decode body = Inl e \<longrightarrow> isl (readResponse decode status body))
   \<and> (\<forall>body e. decode body = Inl e \<longrightarrow> readResponse decode 200 body = Inl (DecodeFailed e))"
proof (intro conjI allI impI)
  show "count_list (snd (getJSON_traced get decode v)) Get \<le> 2"
    by (simp add: getJSON_traced_unfold split: http_result.split)
next
  fix status body assume "get 0 = Response status body"
  then show "getJSON_traced get decode v = (readResponse decode status body, [Get])"
    by (simp add: getJSON_traced_unfold)
next
  fix err status body assume "get 0 = NetworkError err \<and> get 1 = Response status body"
  then show "getJSON_traced get decode v = (readResponse decode status body, [Get, Sleep (1 * Second), Get])"
    by (simp add: getJSON_traced_unfold)
next
  fix err err' assume "get 0 = NetworkError err \<and> get 1 = NetworkError err'"
  then show "getJSON_traced get decode v = (Inl (RequestFailed err'), [Get, Sleep (1 * Second), Get])"
    by (simp add: getJSON_traced_unfold)
next
  fix status :: int and body assume "status < 200 \<or> 299 < status"
  then show "readResponse decode status body = Inl (APIError status (take 512 body))"
    by (auto simp: readResponse_def StatusOK_def)
next
  fix status body e assume "decode body = Inl e"
  then show "isl (readResponse decode status body)"
    by (simp add: readResponse_def)
next
  fix body e assume "decode body = Inl e"
  then show "readResponse decode 200 body = Inl (DecodeFailed e)"
    by (simp add: readResponse_def StatusOK_def)
qed

theorem getJSON_retry_policy_witness:
  "getJSON_traced (\<lambda>n. Response 503 ''busy'') (\<lambda>b. Inr b) '''' = (Inl (APIError 503 ''busy''), [Get])
   \<and> getJSON_traced (\<lambda>n. Response 200 ''{'') (\<lambda>b. Inl ''unexpected EOF'') '''' = (Inl (DecodeFailed ''unexpected EOF''), [Get])
   \<and> getJSON_traced (\<lambda>n. if n = 0 then NetworkError ''timeout'' else Response 200 ''{}'') (\<lambda>b. Inr b) ''''
        = (Inr ''{}'', [Get, Sleep 1000000000, Get])
   \<and> getJSON_traced (\<lambda>n. if n = 0 then NetworkError ''timeout'' else Response 404 ''none'') (\<lambda>b. Inr b) ''''
        = (Inl (APIError 404 ''none''), [Get, Sleep 1000000000, Get])
   \<and> getJSON_traced (\<lambda>n. NetworkError ''connection refused'') (\<lambda>b. Inr b) ''''
        = (Inl (RequestFailed ''connection refused''), [Get, Sleep 1000000000, Get])"
proof (intro conjI)
  show "getJSON_traced (\<lambda>n. Response 503 ''busy'') (\<lambda>b. Inr b) '''' = (Inl (APIError 503 ''busy''), [Get])"
    using getJSON_retry_policy [of "\<lambda>n. Response 503 ''busy''" "\<lambda>b. Inr b" "''''"]
    by simp
  show "getJSON_traced (\<lambda>n. Response 200 ''{'') (\<lambda>b. Inl ''unexpected EOF'') ''''
          = (Inl (DecodeFailed ''unexpected EOF''), [Get])"
    using getJSON_retry_policy [of "\<lambda>n. Response 200 ''{''" "\<lambda>b. Inl ''unexpected EOF''" "''''"]
    by (auto simp: readResponse_def StatusOK_def)
  show "getJSON_traced (\<lambda>n. if n = 0 then NetworkError ''timeout'' else Response 200 ''{}'') (\<lambda>b. Inr b) ''''
          = (Inr ''{}'', [Get, Sleep 1000000000, Get])"
    using getJSON_retry_policy [of "\<lambda>n. if n = 0 then NetworkError ''timeout'' else Response 200 ''{}''" "\<lambda>b. Inr b" "''''"]
    by (simp add: Second_def readResponse_def StatusOK_def)
  show "getJSON_traced (\<lambda>n. if n = 0 then NetworkError ''timeout'' else Response 404 ''none'') (\<lambda>b. Inr b) ''''
          = (Inl (APIError 404 ''none''), [Get, Sleep 1000000000, Get])"
    using getJSON_retry_policy [of "\<lambda>n. if n = 0 then NetworkError ''timeout'' else Response 404 ''none''" "\<lambda>b. Inr b" "''''"]
    by (simp add: Second_def)
  show "getJSON_traced (\<lambda>n. NetworkError ''connection refused'') (\<lambda>b. Inr b) ''''
          = (Inl (RequestFailed ''connection refused''), [Get, Sleep 1000000000, Get])"
    using getJSON_retry_policy [of "\<lambda>n. NetworkError ''connection refused''" "\<lambda>b. Inr b" "''''"]
    by (simp add: Second_def)
qed

subsection \<open>Daily forecast\<close>

lemma forecast_loop_no_panic:
  assumes "\<forall>(i, d) \<in> set its. i < length (dailyRaw.TempMin daily) \<and> i < length (dailyRaw.WindMax daily)"
  shows "\<exists>fc. forecast_loop daily its acc = Inr fc"
  using assms
proof (induction its arbitrary: acc)
  case Nil
  then show ?case by simp
next
  case (Cons a its)
  obtain i d where a: "a = (i, d)" by (cases a)
  from Cons.prems a have i: "i < length (dailyRaw.TempMin daily)" "i < length (dailyRaw.WindMax daily)"
    by auto
  from Cons.prems have rest: "\<forall>(i, d) \<in> set its. i < length (dailyRaw.TempMin daily) \<and> i < length (dailyRaw.WindMax daily)"
    by simp
  show ?case
    using Cons.IH [OF rest] i by (simp add: a index_def Let_def)
qed

lemma in_set_enumerate_lt: "(i, x) \<in> set (enumerate 0 xs) \<Longrightarrow> i < length xs"
  by (simp add: in_set_enumerate_eq)

lemma dailyForecast_no_panic:
  assumes "length (dailyRaw.Time daily) \<le> length (dailyRaw.TempMin daily)"
    and "length (dailyRaw.Time daily) \<le> length (dailyRaw.WindMax daily)"
  shows "\<exists>fc. dailyForecast daily = Inr fc"
  unfolding dailyForecast_def
proof (rule forecast_loop_no_panic, clarify)
  fix i d assume "(i, d) \<in> set (enumerate 0 (dailyRaw.Time daily))"
  then have "i < length (dailyRaw.Time daily)" by (rule in_set_enumerate_lt)
  then show "i < length (dailyRaw.TempMin daily) \<and> i < length (dailyRaw.WindMax daily)"
    using assms by simp
qed

text \<open>
  C1.  The claim says that the daily loop never reads an array out of bounds, whatever the
  lengths of the field arrays.  The loop checks the index against \<open>WeatherCode\<close>, \<open>TempMax\<close>
  and \<open>PrecipProbMax\<close> only: with one date, one weather code, one maximum temperature and no
  minimum temperature it reads \<open>TempMin[0]\<close> and panics.
\<close>

theorem dailyForecast_short_TempMin_panics:
  "dailyForecast short_daily = Inl (IndexOutOfRange 0 0)"
  by (simp add: dailyForecast_def short_daily_def index_def)

subsection \<open>Hourly points\<close>

lemma parseHourly_loop_times:
  "map HourlyPoint.Time (parseHourly_loop L tz h (MkTime now tz) its points) =
     map HourlyPoint.Time points @ map (Format L tz) (hourlyInstants L tz now (map snd its) (length points))"
proof (induction its arbitrary: points)
  case Nil
  then show ?case by simp
next
  case (Cons a its)
  obtain i ts where a: "a = (i, ts)" by (cases a)
  show ?case
    by (simp add: a Cons.IH Let_def time_Before_def time_Format_def split: option.split)
qed

lemma parseHourly_loop_length:
  "length points \<le> 24 \<Longrightarrow> length (parseHourly_loop L tz h now its points) \<le> 24"
proof (induction its arbitrary: points)
  case Nil
  then show ?case by simp
next
  case (Cons a its)
  obtain i ts where a: "a = (i, ts)" by (cases a)
  show ?case
    using Cons.prems by (auto simp: a Let_def split: option.split intro!: Cons.IH)
qed

lemma hourlyInstants_eq:
  "hourlyInstants L tz now tss n =
     take (24 - n) (filter (\<lambda>u. now \<le> u) (List.map_filter (ParseInLocation L tz) tss))"
proof (induction tss arbitrary: n)
  case Nil
  then show ?case by (simp add: List.map_filter_simps)
next
  case (Cons ts tss)
  show ?case
  proof (cases "ParseInLocation L tz ts")
    case None
    then show ?thesis by (simp add: Cons.IH List.map_filter_simps)
  next
    case (Some u)
    show ?thesis
    proof (cases "u < now")
      case True
      then show ?thesis using Some by (simp add: Cons.IH List.map_filter_simps)
    next
      case False
      show ?thesis
      proof (cases "n \<ge> 24")
        case True
        then show ?thesis using Some False by simp
      next
        case n: False
        then have "24 - n = Suc (24 - (n + 1))" by simp
        then show ?thesis
          using Some False n by (simp add: Cons.IH List.map_filter_simps)
      qed
    qed
  qed
qed

lemma map_snd_enumerate: "map snd (enumerate n xs) = xs"
  by (simp add: enumerate_eq_zip)

lemma ParseInLocation_example:
  "ParseInLocation example_lib tz ''2024-01-01T00:00'' = Some 1704067200000000000"
  "ParseInLocation example_lib tz ''2024-01-01T03:00'' = Some 1704078000000000000"
  "ParseInLocation example_lib tz ''2024-01-01T05:00'' = Some 1704085200000000000"
  "ParseInLocation example_lib tz ''2024-01-01T06:00'' = Some 1704088800000000000"
  "ParseInLocation example_lib tz ''2024-01-01T12:00'' = Some 1704110400000000000"
  "ParseInLocation example_lib tz ''2024-01-01T18:00'' = Some 1704132000000000000"
  "ParseInLocation example_lib tz ''2024-01-01T21:00'' = Some 1704142800000000000"
  "ParseInLocation example_lib tz ''tomorrow'' = None"
  by (simp_all add: example_lib_def example_times_def Second_def)

lemma digits_small: "n < 10 \<Longrightarrow> digits n = [digit n]"
  by (simp add: digits.simps)

lemma Format_example:
  "Format example_lib tz 1704067200000000000 = ''00:00''"
  "Format example_lib tz 1704078000000000000 = ''03:00''"
  "Format example_lib tz 1704085200000000000 = ''05:00''"
  "Format example_lib tz 1704088800000000000 = ''06:00''"
  by (simp_all add: example_lib_def Minute_def Second_def two_digits_def itoa_def digits_small digit_def)

lemma parseHourly_instants_unsorted:
  "parseHourly_instants example_lib unsorted_hourly ''2024-01-01T00:00'' ''UTC''
     = [1704085200000000000, 1704078000000000000]"
  by (simp add: parseHourly_instants_def loadLocationOrUTC_example ParseInLocation_example
      unsorted_hourly_def)

lemma parseHourly_unsorted:
  "map HourlyPoint.Time (parseHourly example_lib unsorted_hourly ''2024-01-01T00:00'' ''UTC'')
     = [''05:00'', ''03:00'']"
  by (simp add: parseHourly_def loadLocationOrUTC_example ParseInLocation_example
      unsorted_hourly_def enumerate_eq_zip time_Before_def time_Format_def Format_example Let_def)

lemma map_filter_sorted_hourly:
  "List.map_filter (ParseInLocation example_lib ()) (hourlyRaw.Time sorted_hourly)
     = [1704067200000000000, 1704078000000000000, 1704085200000000000, 1704088800000000000]"
  by (simp add: sorted_hourly_def List.map_filter_simps ParseInLocation_example)

text \<open>
  C6 (as the code has it).  \<open>parseHourly\<close> returns at most 24 points.  Their labels are the
  formatted instants of \<open>parseHourly_instants\<close>, which are the first 24 parsable timestamps of
  the block that are not before now, in the order of the block: each is at or after now,
  and they are non-decreasing when the parsable timestamps of the block are.  When now does
  not parse there are no points.
\<close>

theorem parseHourly_bounded_from_now:
  "length (parseHourly L h cur z) \<le> 24
   \<and> map HourlyPoint.Time (parseHourly L h cur z)
       = map (Format L (loadLocationOrUTC L z)) (parseHourly_instants L h cur z)
   \<and> (\<forall>now. ParseInLocation L (loadLocationOrUTC L z) cur = Some now \<longrightarrow>
         parseHourly_instants L h cur z
           = take 24 (filter (\<lambda>u. now \<le> u)
               (List.map_filter (ParseInLocation L (loadLocationOrUTC L z)) (hourlyRaw.Time h)))
         \<and> (\<forall>u \<in> set (parseHourly_instants L h cur z). now \<le> u))
   \<and> (ParseInLocation L (loadLocationOrUTC L z) cur = None \<longrightarrow> parseHourly L h cur z = [])
   \<and> (sorted (List.map_filter (ParseInLocation L (loadLocationOrUTC L z)) (hourlyRaw.Time h)) \<longrightarrow>
         sorted (parseHourly_instants L h cur z))"
proof (intro conjI allI impI)
  show "length (parseHourly L h cur z) \<le> 24"
    by (simp add: parseHourly_def Let_def parseHourly_loop_length split: option.split)
next
  show "map HourlyPoint.Time (parseHourly L h cur z)
       = map (Format L (loadLocationOrUTC L z)) (parseHourly_instants L h cur z)"
    by (simp add: parseHourly_def parseHourly_instants_def Let_def parseHourly_loop_times
        map_snd_enumerate split: option.split)
next
  fix now assume "ParseInLocation L (loadLocationOrUTC L z) cur = Some now"
  then show eq: "parseHourly_instants L h cur z
           = take 24 (filter (\<lambda>u. now \<le> u)
               (List.map_filter (ParseInLocation L (loadLocationOrUTC L z)) (hourlyRaw.Time h)))"
    by (simp add: parseHourly_instants_def Let_def hourlyInstants_eq)
  show "\<forall>u \<in> set (parseHourly_instants L h cur z). now \<le> u"
  proof
    fix u assume "u \<in> set (parseHourly_instants L h cur z)"
    then have "u \<in> set (filter (\<lambda>u. now \<le> u)
               (List.map_filter (ParseInLocation L (loadLocationOrUTC L z)) (hourlyRaw.Time h)))"
      unfolding eq by (rule in_set_takeD)
    then show "now \<le> u" by simp
  qed
next
  assume "ParseInLocation L (loadLocationOrUTC L z) cur = None"
  then show "parseHourly L h cur z = []"
    by (simp add: parseHourly_def Let_def)
next
  assume s: "sorted (List.map_filter (ParseInLocation L (loadLocationOrUTC L z)) (hourlyRaw.Time h))"
  show "sorted (parseHourly_instants L h cur z)"
  proof (cases "ParseInLocation L (loadLocationOrUTC L z) cur")
    case None
    then show ?thesis by (simp add: parseHourly_instants_def Let_def)
  next
    case (Some now)
    have "sorted (filter (\<lambda>u. now \<le> u)
            (List.map_filter (ParseInLocation L (loadLocationOrUTC L z)) (hourlyRaw.Time h)))"
      using s by (rule sorted_wrt_filter)
    then have "sorted (take 24 (filter (\<lambda>u. now \<le> u)
            (List.map_filter (ParseInLocation L (loadLocationOrUTC L z)) (hourlyRaw.Time h))))"
      by (rule sorted_wrt_take)
    then show ?thesis
      using Some by (simp add: parseHourly_instants_def Let_def hourlyInstants_eq)
  qed
qed

theorem parseHourly_bounded_from_now_witness:
  "sorted (List.map_filter (ParseInLocation example_lib ()) (hourlyRaw.Time sorted_hourly))
   \<and> ParseInLocation example_lib () ''2024-01-01T03:00'' = Some 1704078000000000000
   \<and> parseHourly_instants example_lib sorted_hourly ''2024-01-01T03:00'' ''UTC''
       = [1704078000000000000, 1704085200000000000, 1704088800000000000]
   \<and> sorted (parseHourly_instants example_lib sorted_hourly ''2024-01-01T03:00'' ''UTC'')
   \<and> map HourlyPoint.Time (parseHourly example_lib sorted_hourly ''2024-01-01T03:00'' ''UTC'')
       = [''03:00'', ''05:00'', ''06:00'']
   \<and> length (parseHourly example_lib sorted_hourly ''2024-01-01T03:00'' ''UTC'') \<le> 24"
  using parseHourly_bounded_from_now [of example_lib sorted_hourly "''2024-01-01T03:00''" "''UTC''"]
  by (simp add: loadLocationOrUTC_example ParseInLocation_example map_filter_sorted_hourly Format_example)

text \<open>
  C6 (as stated) fails on a block that is not in ascending order: the loop keeps the order
  of the block.  With the timestamps 05:00 and 03:00 and now 00:00 the points are 05:00,
  then 03:00.
\<close>

theorem parseHourly_unsorted_counterexample:
  "map HourlyPoint.Time (parseHourly example_lib unsorted_hourly ''2024-01-01T00:00'' ''UTC'')
     = [''05:00'', ''03:00'']
   \<and> parseHourly_instants example_lib unsorted_hourly ''2024-01-01T00:00'' ''UTC''
     = [1704085200000000000, 1704078000000000000]
   \<and> \<not> sorted (parseHourly_instants example_lib unsorted_hourly ''2024-01-01T00:00'' ''UTC'')"
  by (simp add: parseHourly_unsorted parseHourly_instants_unsorted)

subsection \<open>Consensus engine\<close>

lemma getJSON_unfold:
  "getJSON get decode v =
     (case get 0 of
        Response status body \<Rightarrow> readResponse decode status body
      | NetworkError err \<Rightarrow>
          (case get 1 of
             Response status body \<Rightarrow> readResponse decode status body
           | NetworkError err' \<Rightarrow> Inl (RequestFailed err')))"
  by (simp add: getJSON_def getJSON_traced_unfold split: http_result.split)

lemma Error_nonempty: "Error e \<noteq> ''''"
  by (cases e) simp_all

lemma fetchModel_Model: "Model (fetchModel U name param lat lon tz tu wu) = name"
  by (simp add: fetchModel_def Let_def split: sum.split option.split)

lemma fetchModel_Err:
  "\<not> Available (fetchModel U name param lat lon tz tu wu)
     \<Longrightarrow> Err (fetchModel U name param lat lon tz tu wu) \<noteq> ''''"
  by (simp add: fetchModel_def Let_def Error_nonempty split: sum.split_asm option.split_asm)

lemma Models_FetchConsensus:
  "Models (FetchConsensus U lat lon tz tu wu) =
     map (\<lambda>(name, param). fetchModel U name param lat lon tz tu wu) forecastModels"
  by (simp add: FetchConsensus_def Let_def)

lemma count_fold_sums_step:
  "count (fold sums_step rs s) = count s + int (length (filter Available rs))"
  by (induction rs arbitrary: s) (simp_all add: sums_step_def)

lemma count_sums_init: "count sums_init = 0"
  by (simp add: sums_init_def)

lemma count_readings:
  "count (fold sums_step rs sums_init) = int (length (filter Available rs))"
  by (simp add: count_fold_sums_step count_sums_init)

lemma fold_sums_step_min_le_max:
  "0 \<le> count s \<Longrightarrow> (0 < count s \<longrightarrow> minTemp s \<le> maxTemp s)
     \<Longrightarrow> 0 < count (fold sums_step rs s)
     \<Longrightarrow> minTemp (fold sums_step rs s) \<le> maxTemp (fold sums_step rs s)"
proof (induction rs arbitrary: s)
  case Nil
  then show ?case by simp
next
  case (Cons r rs)
  show ?case
  proof (cases "Available r")
    case True
    have "minTemp (sums_step r s) \<le> maxTemp (sums_step r s)"
      using True by (simp add: sums_step_def)
    moreover have "0 \<le> count (sums_step r s)"
      using True Cons.prems(1) by (simp add: sums_step_def)
    ultimately show ?thesis
      using Cons.IH [of "sums_step r s"] Cons.prems(3) by simp
  next
    case False
    then have "sums_step r s = s" by (simp add: sums_step_def)
    then show ?thesis using Cons by simp
  qed
qed

lemma math_Round_mono: "x \<le> y \<Longrightarrow> math_Round x \<le> math_Round y"
proof -
  assume xy: "x \<le> y"
  consider "0 \<le> x" | "y < 0" | "x < 0" "0 \<le> y" by linarith
  then show ?thesis
  proof cases
    case 1
    then have "\<lfloor>x + 1 / 2\<rfloor> \<le> \<lfloor>y + 1 / 2\<rfloor>" using xy by (intro floor_mono) simp
    then show ?thesis using 1 xy by (simp add: math_Round_def)
  next
    case 2
    then have "\<lceil>x - 1 / 2\<rceil> \<le> \<lceil>y - 1 / 2\<rceil>" using xy by (intro ceiling_mono) simp
    then show ?thesis using 2 xy by (simp add: math_Round_def)
  next
    case 3
    have "\<lceil>x - 1 / 2\<rceil> \<le> 0" using 3(1) by (simp add: ceiling_le_iff)
    moreover have "0 \<le> \<lfloor>y + 1 / 2\<rfloor>" using 3(2) by simp
    ultimately have "real_of_int \<lceil>x - 1 / 2\<rceil> \<le> real_of_int \<lfloor>y + 1 / 2\<rfloor>" by linarith
    then show ?thesis using 3 by (simp add: math_Round_def)
  qed
qed

lemma math_Round_0: "math_Round 0 = 0"
  by (simp add: math_Round_def)

lemma math_Round_nonneg: "0 \<le> x \<Longrightarrow> 0 \<le> math_Round x"
  using math_Round_mono [of 0 x] by (simp add: math_Round_0)

lemma go_int_nonneg: "0 \<le> x \<Longrightarrow> 0 \<le> go_int x"
  by (simp add: go_int_def)

lemma FetchConsensus_none:
  assumes "count (fold sums_step (Models (FetchConsensus U lat lon tz tu wu)) sums_init) = 0"
  shows "FetchConsensus U lat lon tz tu wu =
     \<lparr>Models = map (\<lambda>(name, param). fetchModel U name param lat lon tz tu wu) forecastModels,
      AvailCount = 0, AvgTemp = 0, AvgHumidity = 0, AvgWind = 0,
      AvgPressure = 0, MinTemp = 0, MaxTemp = 0, Spread = 0, Agreement = '''',
      AgreePct = 0\<rparr>"
  using assms unfolding Models_FetchConsensus by (simp add: FetchConsensus_def Let_def)

lemma FetchConsensus_some:
  assumes "count (fold sums_step (Models (FetchConsensus U lat lon tz tu wu)) sums_init) \<noteq> 0"
  shows "FetchConsensus U lat lon tz tu wu =
     (let readings = map (\<lambda>(name, param). fetchModel U name param lat lon tz tu wu) forecastModels;
          s = fold sums_step readings sums_init;
          minT = math_Round (minTemp s * 10) / 10;
          maxT = math_Round (maxTemp s * 10) / 10;
          spread = math_Round ((maxT - minT) * 10) / 10;
          pct = (if 100 - go_int (spread * 12) < 0 then 0 else 100 - go_int (spread * 12))
      in \<lparr>Models = readings,
          AvailCount = count s,
          AvgTemp = math_Round (sumTemp s / of_int (count s) * 10) / 10,
          AvgHumidity = go_quo (sumHumidity s) (count s),
          AvgWind = math_Round (sumWind s / of_int (count s) * 10) / 10,
          AvgPressure = math_Round (sumPressure s / of_int (count s) * 10) / 10,
          MinTemp = minT,
          MaxTemp = maxT,
          Spread = spread,
          Agreement = (if pct \<ge> 80 then ''High'' else if pct \<ge> 50 then ''Moderate'' else ''Low''),
          AgreePct = pct\<rparr>)"
  using assms unfolding Models_FetchConsensus by (simp add: FetchConsensus_def Let_def)

lemma MaxFloat64_large: "1000000 < MaxFloat64"
  by (simp add: MaxFloat64_def)

lemma readings_example:
  "map (\<lambda>(name, param). fetchModel (example_upstream a b) name param lat lon tz tu wu) forecastModels =
     [\<lparr>Model = ''ECMWF'', Temp = a, Humidity = 50, WindSpeed = 5, Pressure = 1013, WeatherCode = 2,
        Available = True, Err = ''''\<rparr>,
      \<lparr>Model = ''ICON'', Temp = b, Humidity = 61, WindSpeed = 0, Pressure = 1015, WeatherCode = 0,
        Available = True, Err = ''''\<rparr>,
      \<lparr>Model = ''M'' @ [CHR 0xC3, CHR 0xA9] @ ''t'' @ [CHR 0xC3, CHR 0xA9] @ ''o-France'', Temp = 0,
        Humidity = 0, WindSpeed = 0, Pressure = 0, WeatherCode = 0,
        Available = False, Err = ''API error 503: overloaded''\<rparr>,
      \<lparr>Model = ''MET Norway'', Temp = 0, Humidity = 0, WindSpeed = 0, Pressure = 0, WeatherCode = 0,
        Available = False, Err = ''incomplete data''\<rparr>]"
  by (simp add: forecastModels_def fetchModel_def getJSON_unfold example_upstream_def readResponse_def
      StatusOK_def itoa_def digits.simps digit_def)

lemma AvailCount_FetchConsensus:
  "AvailCount (FetchConsensus U lat lon tz tu wu) =
     int (length (filter Available (Models (FetchConsensus U lat lon tz tu wu))))"
proof -
  define rs where "rs = map (\<lambda>(name, param). fetchModel U name param lat lon tz tu wu) forecastModels"
  have m: "Models (FetchConsensus U lat lon tz tu wu) = rs"
    by (simp add: Models_FetchConsensus rs_def)
  have c: "count (fold sums_step rs sums_init) = int (length (filter Available rs))"
    by (rule count_readings)
  have "AvailCount (FetchConsensus U lat lon tz tu wu) = count (fold sums_step rs sums_init)"
    unfolding FetchConsensus_def Let_def rs_def [symmetric] by simp
  then show ?thesis
    unfolding m c .
qed

lemma FetchConsensus_agreement_aux:
  assumes avail: "0 < AvailCount (FetchConsensus U lat lon tz tu wu)"
  shows "MinTemp (FetchConsensus U lat lon tz tu wu) \<le> MaxTemp (FetchConsensus U lat lon tz tu wu)"
    and "Spread (FetchConsensus U lat lon tz tu wu) =
           math_Round ((MaxTemp (FetchConsensus U lat lon tz tu wu)
                        - MinTemp (FetchConsensus U lat lon tz tu wu)) * 10) / 10"
    and "0 \<le> Spread (FetchConsensus U lat lon tz tu wu)"
    and "AgreePct (FetchConsensus U lat lon tz tu wu) =
           max 0 (min 100 (100 - go_int (Spread (FetchConsensus U lat lon tz tu wu) * 12)))"
    and "Agreement (FetchConsensus U lat lon tz tu wu) =
           (if AgreePct (FetchConsensus U lat lon tz tu wu) \<ge> 80 then ''High''
            else if AgreePct (FetchConsensus U lat lon tz tu wu) \<ge> 50 then ''Moderate''
            else ''Low'')"
proof -
  define rs where "rs = map (\<lambda>(name, param). fetchModel U name param lat lon tz tu wu) forecastModels"
  define s where "s = fold sums_step rs sums_init"
  define minT where "minT = math_Round (minTemp s * 10) / 10"
  define maxT where "maxT = math_Round (maxTemp s * 10) / 10"
  define spread where "spread = math_Round ((maxT - minT) * 10) / 10"
  define pct where "pct = (if 100 - go_int (spread * 12) < 0 then 0 else 100 - go_int (spread * 12))"
  have cnt: "0 < count s"
    using avail
    by (simp add: AvailCount_FetchConsensus Models_FetchConsensus s_def rs_def count_readings)
  then have nz: "count (fold sums_step (Models (FetchConsensus U lat lon tz tu wu)) sums_init) \<noteq> 0"
    by (simp add: Models_FetchConsensus s_def rs_def)
  have fields:
    "MinTemp (FetchConsensus U lat lon tz tu wu) = minT"
    "MaxTemp (FetchConsensus U lat lon tz tu wu) = maxT"
    "Spread (FetchConsensus U lat lon tz tu wu) = spread"
    "AgreePct (FetchConsensus U lat lon tz tu wu) = pct"
    "Agreement (FetchConsensus U lat lon tz tu wu) =
       (if pct \<ge> 80 then ''High'' else if pct \<ge> 50 then ''Moderate'' else ''Low'')"
    by (simp_all add: FetchConsensus_some [OF nz] Let_def rs_def s_def minT_def maxT_def
        spread_def pct_def)
  have "minTemp s \<le> maxTemp s"
    unfolding s_def
    by (rule fold_sums_step_min_le_max) (use cnt in \<open>simp_all add: s_def count_sums_init\<close>)
  then have le: "minT \<le> maxT"
    unfolding minT_def maxT_def by (intro divide_right_mono math_Round_mono) simp_all
  then have sp: "0 \<le> spread"
    unfolding spread_def by (intro divide_nonneg_nonneg math_Round_nonneg) simp_all
  then have "0 \<le> go_int (spread * 12)"
    by (intro go_int_nonneg) simp
  then have pct: "pct = max 0 (min 100 (100 - go_int (spread * 12)))"
    by (simp add: pct_def)
  show "MinTemp (FetchConsensus U lat lon tz tu wu) \<le> MaxTemp (FetchConsensus U lat lon tz tu wu)"
    using le by (simp add: fields)
  show "Spread (FetchConsensus U lat lon tz tu wu) =
           math_Round ((MaxTemp (FetchConsensus U lat lon tz tu wu)
                        - MinTemp (FetchConsensus U lat lon tz tu wu)) * 10) / 10"
    by (simp add: fields spread_def)
  show "0 \<le> Spread (FetchConsensus U lat lon tz tu wu)"
    using sp by (simp add: fields)
  show "AgreePct (FetchConsensus U lat lon tz tu wu) =
           max 0 (min 100 (100 - go_int (Spread (FetchConsensus U lat lon tz tu wu) * 12)))"
    using pct by (simp add: fields)
  show "Agreement (FetchConsensus U lat lon tz tu wu) =
           (if AgreePct (FetchConsensus U lat lon tz tu wu) \<ge> 80 then ''High''
            else if AgreePct (FetchConsensus U lat lon tz tu wu) \<ge> 50 then ''Moderate''
            else ''Low'')"
    by (simp add: fields)
qed

lemma minTemp_fold:
  "minTemp (fold sums_step rs s) = fold min (map ModelReading.Temp (filter Available rs)) (minTemp s)"
  by (induction rs arbitrary: s) (simp_all add: sums_step_def min_def)

lemma maxTemp_fold:
  "maxTemp (fold sums_step rs s) = fold max (map ModelReading.Temp (filter Available rs)) (maxTemp s)"
  by (induction rs arbitrary: s) (simp_all add: sums_step_def max_def)

lemma fold_min_Min:
  fixes m :: real
  assumes "ts \<noteq> []" and "\<forall>t \<in> set ts. t \<le> m"
  shows "fold min ts m = Min (set ts)"
proof -
  have "Min (set ts) \<le> m"
    using assms by (metis List.finite_set Min_le hd_in_set order_trans)
  moreover have "fold min ts m = Min (insert m (set ts))"
    using Min.set_eq_fold [of m ts] by simp
  moreover have "Min (insert m (set ts)) = min m (Min (set ts))"
    by (rule Min_insert) (use assms(1) in simp_all)
  ultimately show ?thesis
    by (simp add: min_def)
qed

lemma fold_max_Max:
  fixes m :: real
  assumes "ts \<noteq> []" and "\<forall>t \<in> set ts. m \<le> t"
  shows "fold max ts m = Max (set ts)"
proof -
  have "m \<le> Max (set ts)"
    using assms by (metis List.finite_set Max_ge hd_in_set order_trans)
  moreover have "fold max ts m = Max (insert m (set ts))"
    using Max.set_eq_fold [of m ts] by simp
  moreover have "Max (insert m (set ts)) = max m (Max (set ts))"
    by (rule Max_insert) (use assms(1) in simp_all)
  ultimately show ?thesis
    by (simp add: max_def)
qed

lemma FetchConsensus_min_max:
  assumes avail: "0 < AvailCount (FetchConsensus U lat lon tz tu wu)"
    and range: "\<forall>r \<in> set (Models (FetchConsensus U lat lon tz tu wu)).
                  Available r \<longrightarrow> - MaxFloat64 \<le> ModelReading.Temp r \<and> ModelReading.Temp r \<le> MaxFloat64"
  shows "MinTemp (FetchConsensus U lat lon tz tu wu) =
           math_Round (Min (ModelReading.Temp ` {r \<in> set (Models (FetchConsensus U lat lon tz tu wu)). Available r}) * 10) / 10"
    and "MaxTemp (FetchConsensus U lat lon tz tu wu) =
           math_Round (Max (ModelReading.Temp ` {r \<in> set (Models (FetchConsensus U lat lon tz tu wu)). Available r}) * 10) / 10"
proof -
  define rs where "rs = Models (FetchConsensus U lat lon tz tu wu)"
  define ts where "ts = map ModelReading.Temp (filter Available rs)"
  have rs: "rs = map (\<lambda>(name, param). fetchModel U name param lat lon tz tu wu) forecastModels"
    by (simp add: rs_def Models_FetchConsensus)
  have "0 < length (filter Available rs)"
    using avail by (simp add: AvailCount_FetchConsensus rs_def)
  then have ne: "ts \<noteq> []" by (simp add: ts_def)
  have set_ts: "set ts = ModelReading.Temp ` {r \<in> set rs. Available r}"
    by (simp add: ts_def)
  have lo: "\<forall>t \<in> set ts. - MaxFloat64 \<le> t" and hi: "\<forall>t \<in> set ts. t \<le> MaxFloat64"
    using range by (auto simp: ts_def rs_def)
  have nz: "count (fold sums_step (Models (FetchConsensus U lat lon tz tu wu)) sums_init) \<noteq> 0"
    using avail ne by (simp add: count_readings ts_def rs_def)
  have "minTemp (fold sums_step rs sums_init) = Min (set ts)"
    using fold_min_Min [OF ne hi] by (simp add: minTemp_fold ts_def sums_init_def)
  moreover have "maxTemp (fold sums_step rs sums_init) = Max (set ts)"
    using fold_max_Max [OF ne lo] by (simp add: maxTemp_fold ts_def sums_init_def)
  ultimately show
    "MinTemp (FetchConsensus U lat lon tz tu wu) =
           math_Round (Min (ModelReading.Temp ` {r \<in> set (Models (FetchConsensus U lat lon tz tu wu)). Available r}) * 10) / 10"
    "MaxTemp (FetchConsensus U lat lon tz tu wu) =
           math_Round (Max (ModelReading.Temp ` {r \<in> set (Models (FetchConsensus U lat lon tz tu wu)). Available r}) * 10) / 10"
    unfolding set_ts [symmetric, unfolded rs_def, symmetric] rs_def [symmetric]
    by (simp_all add: FetchConsensus_some [OF nz] Let_def rs [symmetric] set_ts)
qed

lemma fold_sums_step_example:
  assumes "a < MaxFloat64" and "- MaxFloat64 < a"
  shows "fold sums_step
     [\<lparr>Model = m1, Temp = a, Humidity = 50, WindSpeed = 5, Pressure = 1013, WeatherCode = 2,
        Available = True, Err = ''''\<rparr>,
      \<lparr>Model = m2, Temp = b, Humidity = 61, WindSpeed = 0, Pressure = 1015, WeatherCode = 0,
        Available = True, Err = ''''\<rparr>,
      \<lparr>Model = m3, Temp = 0, Humidity = 0, WindSpeed = 0, Pressure = 0, WeatherCode = 0,
        Available = False, Err = e3\<rparr>,
      \<lparr>Model = m4, Temp = 0, Humidity = 0, WindSpeed = 0, Pressure = 0, WeatherCode = 0,
        Available = False, Err = e4\<rparr>] sums_init =
     \<lparr>sumTemp = a + b, sumWind = 5, sumPressure = 2028, sumHumidity = 111, count = 2,
      minTemp = (if b < a then b else a), maxTemp = (if b > a then b else a)\<rparr>"
  using assms by (simp add: sums_step_def sums_init_def)

lemma FetchConsensus_example_10_12:
  "FetchConsensus (example_upstream 10 12) lat lon tz tu wu =
     \<lparr>Models = map (\<lambda>(name, param). fetchModel (example_upstream 10 12) name param lat lon tz tu wu)
                 forecastModels,
      AvailCount = 2, AvgTemp = 11, AvgHumidity = 55, AvgWind = 2.5, AvgPressure = 1014,
      MinTemp = 10, MaxTemp = 12, Spread = 2, Agreement = ''Moderate'', AgreePct = 76\<rparr>"
proof -
  have b: "(10::real) < MaxFloat64" "- MaxFloat64 < (10::real)"
    using MaxFloat64_large by simp_all
  show ?thesis
    unfolding FetchConsensus_def Let_def readings_example fold_sums_step_example [OF b]
    by (simp add: math_Round_def go_int_def go_quo_def)
qed

lemma FetchConsensus_example_10_103:
  "AvailCount (FetchConsensus (example_upstream 10 10.3) lat lon tz tu wu) = 2"
  "MinTemp (FetchConsensus (example_upstream 10 10.3) lat lon tz tu wu) = 10"
  "MaxTemp (FetchConsensus (example_upstream 10 10.3) lat lon tz tu wu) = 10.3"
  "Spread (FetchConsensus (example_upstream 10 10.3) lat lon tz tu wu) = 0.3"
  "AgreePct (FetchConsensus (example_upstream 10 10.3) lat lon tz tu wu) = 97"
proof -
  have b: "(10::real) < MaxFloat64" "- MaxFloat64 < (10::real)"
    using MaxFloat64_large by simp_all
  show "AvailCount (FetchConsensus (example_upstream 10 10.3) lat lon tz tu wu) = 2"
    "MinTemp (FetchConsensus (example_upstream 10 10.3) lat lon tz tu wu) = 10"
    "MaxTemp (FetchConsensus (example_upstream 10 10.3) lat lon tz tu wu) = 10.3"
    "Spread (FetchConsensus (example_upstream 10 10.3) lat lon tz tu wu) = 0.3"
    "AgreePct (FetchConsensus (example_upstream 10 10.3) lat lon tz tu wu) = 97"
    unfolding FetchConsensus_def Let_def readings_example fold_sums_step_example [OF b]
    by (simp_all add: math_Round_def go_int_def go_quo_def)
qed

lemma readings_dead:
  "map (\<lambda>(name, param). fetchModel dead_upstream name param lat lon tz tu wu) forecastModels =
     [\<lparr>Model = ''ECMWF'', Temp = 0, Humidity = 0, WindSpeed = 0, Pressure = 0, WeatherCode = 0,
        Available = False, Err = ''request failed: connection refused''\<rparr>,
      \<lparr>Model = ''ICON'', Temp = 0, Humidity = 0, WindSpeed = 0, Pressure = 0, WeatherCode = 0,
        Available = False, Err = ''request failed: connection refused''\<rparr>,
      \<lparr>Model = ''M'' @ [CHR 0xC3, CHR 0xA9] @ ''t'' @ [CHR 0xC3, CHR 0xA9] @ ''o-France'', Temp = 0,
        Humidity = 0, WindSpeed = 0, Pressure = 0, WeatherCode = 0,
        Available = False, Err = ''request failed: connection refused''\<rparr>,
      \<lparr>Model = ''MET Norway'', Temp = 0, Humidity = 0, WindSpeed = 0, Pressure = 0, WeatherCode = 0,
        Available = False, Err = ''request failed: connection refused''\<rparr>]"
  by (simp add: forecastModels_def fetchModel_def getJSON_unfold dead_upstream_def)

lemma FetchConsensus_dead:
  "FetchConsensus dead_upstream lat lon tz tu wu =
     \<lparr>Models = map (\<lambda>(name, param). fetchModel dead_upstream name param lat lon tz tu wu) forecastModels,
      AvailCount = 0, AvgTemp = 0, AvgHumidity = 0, AvgWind = 0, AvgPressure = 0, MinTemp = 0,
      MaxTemp = 0, Spread = 0, Agreement = '''', AgreePct = 0\<rparr>"
  by (rule FetchConsensus_none) (simp add: Models_FetchConsensus readings_dead sums_step_def sums_init_def)

lemma fetchModel_Available:
  "Available (fetchModel U name param lat lon tz tu wu) =
     (case getJSON (HTTPGet U (ModelRequest lat lon tu wu tz param)) (decodeModel U) zero_modelResponse of
        Inl err \<Rightarrow> False
      | Inr resp \<Rightarrow>
          modelCurrentRaw.Temp (modelResponse.Current resp) \<noteq> None
          \<and> modelCurrentRaw.Humidity (modelResponse.Current resp) \<noteq> None)"
  by (simp add: fetchModel_def Let_def split: sum.split option.split)

lemma fetchModel_unavailable:
  "(\<not> Available (fetchModel U name param lat lon tz tu wu)) =
     (case getJSON (HTTPGet U (ModelRequest lat lon tu wu tz param)) (decodeModel U) zero_modelResponse of
        Inl err \<Rightarrow> True
      | Inr resp \<Rightarrow>
          modelCurrentRaw.Temp (modelResponse.Current resp) = None
          \<or> modelCurrentRaw.Humidity (modelResponse.Current resp) = None)"
  by (simp add: fetchModel_Available split: sum.split)

lemma readings_unavailable:
  "(\<forall>r \<in> set (Models (FetchConsensus U lat lon tz tu wu)). \<not> Available r) =
     (\<forall>(name, param) \<in> set forecastModels.
        case getJSON (HTTPGet U (ModelRequest lat lon tu wu tz param)) (decodeModel U) zero_modelResponse of
          Inl err \<Rightarrow> True
        | Inr resp \<Rightarrow>
            modelCurrentRaw.Temp (modelResponse.Current resp) = None
            \<or> modelCurrentRaw.Humidity (modelResponse.Current resp) = None)"
proof -
  have "(\<forall>r \<in> set (Models (FetchConsensus U lat lon tz tu wu)). \<not> Available r) =
        (\<forall>(name, param) \<in> set forecastModels. \<not> Available (fetchModel U name param lat lon tz tu wu))"
    by (auto simp: Models_FetchConsensus)
  then show ?thesis
    by (simp only: fetchModel_unavailable)
qed

lemma map_all_False: "\<forall>x \<in> set xs. \<not> P x \<Longrightarrow> map P xs = replicate (length xs) False"
  by (induction xs) simp_all

lemma readings_failing:
  "map (\<lambda>(name, param). fetchModel failing_upstream name param lat lon tz tu wu) forecastModels =
     [\<lparr>Model = ''ECMWF'', Temp = 0, Humidity = 0, WindSpeed = 0, Pressure = 0, WeatherCode = 0,
        Available = False, Err = ''request failed: timeout''\<rparr>,
      \<lparr>Model = ''ICON'', Temp = 0, Humidity = 0, WindSpeed = 0, Pressure = 0, WeatherCode = 0,
        Available = False, Err = ''API error 503: overloaded''\<rparr>,
      \<lparr>Model = ''M'' @ [CHR 0xC3, CHR 0xA9] @ ''t'' @ [CHR 0xC3, CHR 0xA9] @ ''o-France'', Temp = 0,
        Humidity = 0, WindSpeed = 0, Pressure = 0, WeatherCode = 0,
        Available = False, Err = ''incomplete data''\<rparr>,
      \<lparr>Model = ''MET Norway'', Temp = 0, Humidity = 0, WindSpeed = 0, Pressure = 0, WeatherCode = 0,
        Available = False, Err = ''incomplete data''\<rparr>]"
  by (simp add: forecastModels_def fetchModel_def getJSON_unfold failing_upstream_def readResponse_def
      StatusOK_def itoa_def digits.simps digit_def)

lemma fetches_fail_dead:
  "\<forall>(name, param) \<in> set forecastModels.
     case getJSON (HTTPGet dead_upstream (ModelRequest lat lon tu wu tz param)) (decodeModel dead_upstream)
            zero_modelResponse of
       Inl err \<Rightarrow> True
     | Inr resp \<Rightarrow>
         modelCurrentRaw.Temp (modelResponse.Current resp) = None
         \<or> modelCurrentRaw.Humidity (modelResponse.Current resp) = None"
  by (simp add: forecastModels_def getJSON_unfold dead_upstream_def)

lemma fetches_fail_failing:
  "\<forall>(name, param) \<in> set forecastModels.
     case getJSON (HTTPGet failing_upstream (ModelRequest lat lon tu wu tz param))
            (decodeModel failing_upstream) zero_modelResponse of
       Inl err \<Rightarrow> True
     | Inr resp \<Rightarrow>
         modelCurrentRaw.Temp (modelResponse.Current resp) = None
         \<or> modelCurrentRaw.Humidity (modelResponse.Current resp) = None"
  by (simp add: forecastModels_def getJSON_unfold failing_upstream_def readResponse_def StatusOK_def)

text \<open>
  C2 (as the code has it).  When the fetch of every configured model fails (\<open>getJSON\<close>
  returns an error) or returns incomplete data (no temperature or no humidity), every reading
  of the summary is unavailable, there is one reading per configured model, \<open>AvailCount\<close>,
  \<open>AvgTemp\<close>, \<open>AvgWind\<close>, \<open>AvgPressure\<close>, \<open>Spread\<close> and \<open>AgreePct\<close> are all 0, and the agreement
  label is left empty: the function returns before it sets the label.  Conversely the
  readings are all unavailable only when every fetch fails or is incomplete.
\<close>

theorem FetchConsensus_no_model:
  "((\<forall>(name, param) \<in> set forecastModels.
        case getJSON (HTTPGet U (ModelRequest lat lon tu wu tz param)) (decodeModel U) zero_modelResponse of
          Inl err \<Rightarrow> True
        | Inr resp \<Rightarrow>
            modelCurrentRaw.Temp (modelResponse.Current resp) = None
            \<or> modelCurrentRaw.Humidity (modelResponse.Current resp) = None) \<longrightarrow>
     (\<forall>r \<in> set (Models (FetchConsensus U lat lon tz tu wu)). \<not> Available r)
     \<and> map Available (Models (FetchConsensus U lat lon tz tu wu)) = replicate (length forecastModels) False
     \<and> length (Models (FetchConsensus U lat lon tz tu wu)) = length forecastModels
     \<and> AvailCount (FetchConsensus U lat lon tz tu wu) = 0
     \<and> AvgTemp (FetchConsensus U lat lon tz tu wu) = 0
     \<and> AvgWind (FetchConsensus U lat lon tz tu wu) = 0
     \<and> AvgPressure (FetchConsensus U lat lon tz tu wu) = 0
     \<and> Spread (FetchConsensus U lat lon tz tu wu) = 0
     \<and> AgreePct (FetchConsensus U lat lon tz tu wu) = 0
     \<and> Agreement (FetchConsensus U lat lon tz tu wu) = '''')
   \<and> ((\<forall>r \<in> set (Models (FetchConsensus U lat lon tz tu wu)). \<not> Available r) \<longrightarrow>
        (\<forall>(name, param) \<in> set forecastModels.
           case getJSON (HTTPGet U (ModelRequest lat lon tu wu tz param)) (decodeModel U) zero_modelResponse of
             Inl err \<Rightarrow> True
           | Inr resp \<Rightarrow>
               modelCurrentRaw.Temp (modelResponse.Current resp) = None
               \<or> modelCurrentRaw.Humidity (modelResponse.Current resp) = None))"
proof (intro conjI impI)
  assume fail: "\<forall>(name, param) \<in> set forecastModels.
        case getJSON (HTTPGet U (ModelRequest lat lon tu wu tz param)) (decodeModel U) zero_modelResponse of
          Inl err \<Rightarrow> True
        | Inr resp \<Rightarrow>
            modelCurrentRaw.Temp (modelResponse.Current resp) = None
            \<or> modelCurrentRaw.Humidity (modelResponse.Current resp) = None"
  then show none: "\<forall>r \<in> set (Models (FetchConsensus U lat lon tz tu wu)). \<not> Available r"
    by (simp only: readings_unavailable)
  have len: "length (Models (FetchConsensus U lat lon tz tu wu)) = length forecastModels"
    by (simp add: Models_FetchConsensus)
  show "length (Models (FetchConsensus U lat lon tz tu wu)) = length forecastModels"
    by (rule len)
  have "map Available (Models (FetchConsensus U lat lon tz tu wu))
          = replicate (length (Models (FetchConsensus U lat lon tz tu wu))) False"
    using none by (rule map_all_False)
  then show "map Available (Models (FetchConsensus U lat lon tz tu wu)) = replicate (length forecastModels) False"
    by (simp only: len)
  from none have "filter Available (Models (FetchConsensus U lat lon tz tu wu)) = []"
    by (simp add: filter_empty_conv)
  then have "count (fold sums_step (Models (FetchConsensus U lat lon tz tu wu)) sums_init) = 0"
    by (simp add: count_readings)
  then have eq: "FetchConsensus U lat lon tz tu wu =
     \<lparr>Models = map (\<lambda>(name, param). fetchModel U name param lat lon tz tu wu) forecastModels,
      AvailCount = 0, AvgTemp = 0, AvgHumidity = 0, AvgWind = 0,
      AvgPressure = 0, MinTemp = 0, MaxTemp = 0, Spread = 0, Agreement = '''',
      AgreePct = 0\<rparr>"
    by (rule FetchConsensus_none)
  show "AvailCount (FetchConsensus U lat lon tz tu wu) = 0" by (subst eq) simp
  show "AvgTemp (FetchConsensus U lat lon tz tu wu) = 0" by (subst eq) simp
  show "AvgWind (FetchConsensus U lat lon tz tu wu) = 0" by (subst eq) simp
  show "AvgPressure (FetchConsensus U lat lon tz tu wu) = 0" by (subst eq) simp
  show "Spread (FetchConsensus U lat lon tz tu wu) = 0" by (subst eq) simp
  show "AgreePct (FetchConsensus U lat lon tz tu wu) = 0" by (subst eq) simp
  show "Agreement (FetchConsensus U lat lon tz tu wu) = ''''" by (subst eq) simp
next
  assume "\<forall>r \<in> set (Models (FetchConsensus U lat lon tz tu wu)). \<not> Available r"
  then show "\<forall>(name, param) \<in> set forecastModels.
           case getJSON (HTTPGet U (ModelRequest lat lon tu wu tz param)) (decodeModel U) zero_modelResponse of
             Inl err \<Rightarrow> True
           | Inr resp \<Rightarrow>
               modelCurrentRaw.Temp (modelResponse.Current resp) = None
               \<or> modelCurrentRaw.Humidity (modelResponse.Current resp) = None"
    by (simp only: readings_unavailable)
qed

theorem FetchConsensus_no_model_witness:
  "map Available (Models (FetchConsensus failing_upstream 48.8534 2.3488 ''UTC'' ''celsius'' ''kmh''))
     = [False, False, False, False]
   \<and> map Err (Models (FetchConsensus failing_upstream 48.8534 2.3488 ''UTC'' ''celsius'' ''kmh''))
     = [''request failed: timeout'', ''API error 503: overloaded'', ''incomplete data'', ''incomplete data'']
   \<and> AvailCount (FetchConsensus failing_upstream 48.8534 2.3488 ''UTC'' ''celsius'' ''kmh'') = 0
   \<and> AvgTemp (FetchConsensus failing_upstream 48.8534 2.3488 ''UTC'' ''celsius'' ''kmh'') = 0
   \<and> AvgWind (FetchConsensus failing_upstream 48.8534 2.3488 ''UTC'' ''celsius'' ''kmh'') = 0
   \<and> AvgPressure (FetchConsensus failing_upstream 48.8534 2.3488 ''UTC'' ''celsius'' ''kmh'') = 0
   \<and> Spread (FetchConsensus failing_upstream 48.8534 2.3488 ''UTC'' ''celsius'' ''kmh'') = 0
   \<and> AgreePct (FetchConsensus failing_upstream 48.8534 2.3488 ''UTC'' ''celsius'' ''kmh'') = 0
   \<and> Agreement (FetchConsensus failing_upstream 48.8534 2.3488 ''UTC'' ''celsius'' ''kmh'') = ''''
   \<and> length (Models (FetchConsensus failing_upstream 48.8534 2.3488 ''UTC'' ''celsius'' ''kmh'')) = 4
   \<and> map Available (Models (FetchConsensus dead_upstream 48.8534 2.3488 ''UTC'' ''celsius'' ''kmh''))
     = [False, False, False, False]
   \<and> AvailCount (FetchConsensus dead_upstream 48.8534 2.3488 ''UTC'' ''celsius'' ''kmh'') = 0
   \<and> Agreement (FetchConsensus dead_upstream 48.8534 2.3488 ''UTC'' ''celsius'' ''kmh'') = ''''"
proof -
  note f = FetchConsensus_no_model [of failing_upstream "48.8534" "2.3488" "''celsius''" "''kmh''" "''UTC''",
      THEN conjunct1, THEN mp, OF fetches_fail_failing]
  note d = FetchConsensus_no_model [of dead_upstream "48.8534" "2.3488" "''celsius''" "''kmh''" "''UTC''",
      THEN conjunct1, THEN mp, OF fetches_fail_dead]
  have four: "replicate (length forecastModels) False = [False, False, False, False]"
    by (simp add: forecastModels_def)
  have len: "length forecastModels = 4"
    by (simp add: forecastModels_def)
  have errs: "map Err (Models (FetchConsensus failing_upstream 48.8534 2.3488 ''UTC'' ''celsius'' ''kmh''))
     = [''request failed: timeout'', ''API error 503: overloaded'', ''incomplete data'', ''incomplete data'']"
    by (simp add: Models_FetchConsensus readings_failing)
  show ?thesis
    by (intro conjI errs
        f [THEN conjunct2, THEN conjunct1, THEN trans, OF four]
        f [THEN conjunct2, THEN conjunct2, THEN conjunct1, THEN trans, OF len]
        f [THEN conjunct2, THEN conjunct2, THEN conjunct2, THEN conjunct1]
        f [THEN conjunct2, THEN conjunct2, THEN conjunct2, THEN conjunct2, THEN conjunct1]
        f [THEN conjunct2, THEN conjunct2, THEN conjunct2, THEN conjunct2, THEN conjunct2, THEN conjunct1]
        f [THEN conjunct2, THEN conjunct2, THEN conjunct2, THEN conjunct2, THEN conjunct2, THEN conjunct2,
           THEN conjunct1]
        f [THEN conjunct2, THEN conjunct2, THEN conjunct2, THEN conjunct2, THEN conjunct2, THEN conjunct2,
           THEN conjunct2, THEN conjunct1]
        f [THEN conjunct2, THEN conjunct2, THEN conjunct2, THEN conjunct2, THEN conjunct2, THEN conjunct2,
           THEN conjunct2, THEN conjunct2, THEN conjunct1]
        f [THEN conjunct2, THEN conjunct2, THEN conjunct2, THEN conjunct2, THEN conjunct2, THEN conjunct2,
           THEN conjunct2, THEN conjunct2, THEN conjunct2]
        d [THEN conjunct2, THEN conjunct1, THEN trans, OF four]
        d [THEN conjunct2, THEN conjunct2, THEN conjunct2, THEN conjunct1]
        d [THEN conjunct2, THEN conjunct2, THEN conjunct2, THEN conjunct2, THEN conjunct2, THEN conjunct2,
           THEN conjunct2, THEN conjunct2, THEN conjunct2])
qed

text \<open>
  C2 (as stated) fails on the label: with every connection refused all four readings are
  unavailable and \<open>Agreement\<close> is the empty string, not \<open>Low\<close>.
\<close>

theorem FetchConsensus_no_model_counterexample:
  "map Available (Models (FetchConsensus dead_upstream 48.8534 2.3488 ''UTC'' ''celsius'' ''kmh''))
     = [False, False, False, False]
   \<and> Agreement (FetchConsensus dead_upstream 48.8534 2.3488 ''UTC'' ''celsius'' ''kmh'') = ''''
   \<and> Agreement (FetchConsensus dead_upstream 48.8534 2.3488 ''UTC'' ''celsius'' ''kmh'') \<noteq> ''Low''"
  by (simp add: FetchConsensus_dead readings_dead)

text \<open>
  C4 (as the code has it).  When at least one model is available, \<open>Spread\<close> is the difference
  of the rounded maximum and minimum temperatures, rounded to one decimal, and it is not
  negative; the agreement percentage is \<open>100 - int(Spread * 12)\<close>, the product truncated to an
  integer, clamped to 0..100; the label is \<open>High\<close> from 80, \<open>Moderate\<close> from 50 and \<open>Low\<close>
  below.  \<open>MinTemp\<close> and \<open>MaxTemp\<close> are the rounded minimum and maximum of the available
  temperatures (which, as \<open>float64\<close> values, lie within \<open>MaxFloat64\<close>).  For the readings 10.0
  and 12.0 the summary has \<open>MinTemp\<close> 10, \<open>MaxTemp\<close> 12, \<open>Spread\<close> 2, \<open>AvgTemp\<close> 11,
  \<open>AgreePct\<close> 76 and the label \<open>Moderate\<close>.
\<close>

theorem FetchConsensus_agreement:
  "(0 < AvailCount (FetchConsensus U lat lon tz tu wu) \<longrightarrow>
      Spread (FetchConsensus U lat lon tz tu wu) =
        math_Round ((MaxTemp (FetchConsensus U lat lon tz tu wu)
                     - MinTemp (FetchConsensus U lat lon tz tu wu)) * 10) / 10
      \<and> 0 \<le> Spread (FetchConsensus U lat lon tz tu wu)
      \<and> AgreePct (FetchConsensus U lat lon tz tu wu) =
          max 0 (min 100 (100 - go_int (Spread (FetchConsensus U lat lon tz tu wu) * 12)))
      \<and> Agreement (FetchConsensus U lat lon tz tu wu) =
          (if AgreePct (FetchConsensus U lat lon tz tu wu) \<ge> 80 then ''High''
           else if AgreePct (FetchConsensus U lat lon tz tu wu) \<ge> 50 then ''Moderate''
           else ''Low''))
   \<and> (0 < AvailCount (FetchConsensus U lat lon tz tu wu)
       \<and> (\<forall>r \<in> set (Models (FetchConsensus U lat lon tz tu wu)).
             Available r \<longrightarrow> - MaxFloat64 \<le> ModelReading.Temp r \<and> ModelReading.Temp r \<le> MaxFloat64) \<longrightarrow>
      MinTemp (FetchConsensus U lat lon tz tu wu) =
        math_Round (Min (ModelReading.Temp `
          {r \<in> set (Models (FetchConsensus U lat lon tz tu wu)). Available r}) * 10) / 10
      \<and> MaxTemp (FetchConsensus U lat lon tz tu wu) =
        math_Round (Max (ModelReading.Temp `
          {r \<in> set (Models (FetchConsensus U lat lon tz tu wu)). Available r}) * 10) / 10)
   \<and> map ModelReading.Temp (filter Available
        (Models (FetchConsensus (example_upstream 10 12) lat' lon' tz' tu' wu'))) = [10, 12]
   \<and> MinTemp (FetchConsensus (example_upstream 10 12) lat' lon' tz' tu' wu') = 10
   \<and> MaxTemp (FetchConsensus (example_upstream 10 12) lat' lon' tz' tu' wu') = 12
   \<and> Spread (FetchConsensus (example_upstream 10 12) lat' lon' tz' tu' wu') = 2
   \<and> AvgTemp (FetchConsensus (example_upstream 10 12) lat' lon' tz' tu' wu') = 11
   \<and> AgreePct (FetchConsensus (example_upstream 10 12) lat' lon' tz' tu' wu') = 76
   \<and> Agreement (FetchConsensus (example_upstream 10 12) lat' lon' tz' tu' wu') = ''Moderate''"
proof (intro conjI impI)
  assume a: "0 < AvailCount (FetchConsensus U lat lon tz tu wu)"
  show "Spread (FetchConsensus U lat lon tz tu wu) =
        math_Round ((MaxTemp (FetchConsensus U lat lon tz tu wu)
                     - MinTemp (FetchConsensus U lat lon tz tu wu)) * 10) / 10"
    by (rule FetchConsensus_agreement_aux(2) [OF a])
  show "0 \<le> Spread (FetchConsensus U lat lon tz tu wu)"
    by (rule FetchConsensus_agreement_aux(3) [OF a])
  show "AgreePct (FetchConsensus U lat lon tz tu wu) =
          max 0 (min 100 (100 - go_int (Spread (FetchConsensus U lat lon tz tu wu) * 12)))"
    by (rule FetchConsensus_agreement_aux(4) [OF a])
  show "Agreement (FetchConsensus U lat lon tz tu wu) =
          (if AgreePct (FetchConsensus U lat lon tz tu wu) \<ge> 80 then ''High''
           else if AgreePct (FetchConsensus U lat lon tz tu wu) \<ge> 50 then ''Moderate''
           else ''Low'')"
    by (rule FetchConsensus_agreement_aux(5) [OF a])
next
  assume a: "0 < AvailCount (FetchConsensus U lat lon tz tu wu)
       \<and> (\<forall>r \<in> set (Models (FetchConsensus U lat lon tz tu wu)).
             Available r \<longrightarrow> - MaxFloat64 \<le> ModelReading.Temp r \<and> ModelReading.Temp r \<le> MaxFloat64)"
  show "MinTemp (FetchConsensus U lat lon tz tu wu) =
        math_Round (Min (ModelReading.Temp `
          {r \<in> set (Models (FetchConsensus U lat lon tz tu wu)). Available r}) * 10) / 10"
    using a by (intro FetchConsensus_min_max(1)) simp_all
  show "MaxTemp (FetchConsensus U lat lon tz tu wu) =
        math_Round (Max (ModelReading.Temp `
          {r \<in> set (Models (FetchConsensus U lat lon tz tu wu)). Available r}) * 10) / 10"
    using a by (intro FetchConsensus_min_max(2)) simp_all
next
  show "map ModelReading.Temp (filter Available
        (Models (FetchConsensus (example_upstream 10 12) lat' lon' tz' tu' wu'))) = [10, 12]"
    by (simp add: Models_FetchConsensus readings_example)
qed (simp_all add: FetchConsensus_example_10_12)

theorem FetchConsensus_agreement_witness:
  "0 < AvailCount (FetchConsensus (example_upstream 10 12) 48.8534 2.3488 ''UTC'' ''celsius'' ''kmh'')
   \<and> MinTemp (FetchConsensus (example_upstream 10 12) 48.8534 2.3488 ''UTC'' ''celsius'' ''kmh'') = 10
   \<and> MaxTemp (FetchConsensus (example_upstream 10 12) 48.8534 2.3488 ''UTC'' ''celsius'' ''kmh'') = 12
   \<and> Spread (FetchConsensus (example_upstream 10 12) 48.8534 2.3488 ''UTC'' ''celsius'' ''kmh'') = 2
   \<and> AvgTemp (FetchConsensus (example_upstream 10 12) 48.8534 2.3488 ''UTC'' ''celsius'' ''kmh'') = 11
   \<and> AgreePct (FetchConsensus (example_upstream 10 12) 48.8534 2.3488 ''UTC'' ''celsius'' ''kmh'') = 76
   \<and> Agreement (FetchConsensus (example_upstream 10 12) 48.8534 2.3488 ''UTC'' ''celsius'' ''kmh'')
       = ''Moderate''"
proof -
  have "0 < AvailCount (FetchConsensus (example_upstream 10 12) 48.8534 2.3488 ''UTC'' ''celsius'' ''kmh'')"
    by (simp add: AvailCount_FetchConsensus Models_FetchConsensus readings_example)
  then show ?thesis
    using FetchConsensus_agreement [of "example_upstream 10 12" "48.8534" "2.3488" "''UTC''"
        "''celsius''" "''kmh''" "48.8534" "2.3488" "''UTC''" "''celsius''" "''kmh''"]
    by (elim conjE) (intro conjI; assumption)
qed

text \<open>
  C4 (as stated) fails where \<open>Spread * 12\<close> is not a whole number: for the readings 10.0 and
  10.3 the spread is 0.3 and \<open>AgreePct\<close> is \<open>100 - int(3.6) = 97\<close>, while \<open>100 - 0.3 * 12\<close>
  is 96.4, which is 96 both rounded down and rounded to the nearest integer.
\<close>

theorem FetchConsensus_agreement_counterexample:
  "AvailCount (FetchConsensus (example_upstream 10 10.3) 48.8534 2.3488 ''UTC'' ''celsius'' ''kmh'') = 2
   \<and> Spread (FetchConsensus (example_upstream 10 10.3) 48.8534 2.3488 ''UTC'' ''celsius'' ''kmh'') = 0.3
   \<and> AgreePct (FetchConsensus (example_upstream 10 10.3) 48.8534 2.3488 ''UTC'' ''celsius'' ''kmh'') = 97
   \<and> max 0 (min 100 (100 -
         Spread (FetchConsensus (example_upstream 10 10.3) 48.8534 2.3488 ''UTC'' ''celsius'' ''kmh'') * 12))
       = 96.4
   \<and> real_of_int (AgreePct (FetchConsensus (example_upstream 10 10.3) 48.8534 2.3488 ''UTC'' ''celsius'' ''kmh''))
       \<noteq> max 0 (min 100 (100 -
            Spread (FetchConsensus (example_upstream 10 10.3) 48.8534 2.3488 ''UTC'' ''celsius'' ''kmh'') * 12))"
  by (simp add: FetchConsensus_example_10_103)

lemma Model_readings:
  "map Model (Models (FetchConsensus U lat lon tz tu wu)) = map fst forecastModels"
  by (simp add: Models_FetchConsensus fetchModel_Model split_def)

lemma Err_readings:
  assumes "r \<in> set (Models (FetchConsensus U lat lon tz tu wu))" and "\<not> Available r"
  shows "Err r \<noteq> ''''"
proof -
  from assms(1) obtain name param where "r = fetchModel U name param lat lon tz tu wu"
    by (auto simp: Models_FetchConsensus)
  then show ?thesis using assms(2) by (simp add: fetchModel_Err)
qed

lemma GetWeather_Returned:
  assumes "GetWeather L U BuildOutfit city units = Returned rep"
  shows "\<exists>loc. Geocode U city = Inr loc
           \<and> Consensus rep =
               Some (FetchConsensus U (Latitude loc) (Longitude loc) (Timezone loc)
                 (if units = ''imperial'' then ''fahrenheit'' else ''celsius'')
                 (if units = ''imperial'' then ''mph'' else ''kmh''))"
proof (cases "Geocode U city")
  case (Inl err)
  then show ?thesis using assms by (simp add: GetWeather_def)
next
  case (Inr loc)
  define tempUnit where "tempUnit = (if units = ''imperial'' then ''fahrenheit'' else ''celsius'')"
  define windUnit where "windUnit = (if units = ''imperial'' then ''mph'' else ''kmh'')"
  have "Consensus rep =
          Some (FetchConsensus U (Latitude loc) (Longitude loc) (Timezone loc) tempUnit windUnit)"
    using assms
    unfolding GetWeather_def Let_def Inr tempUnit_def [symmetric] windUnit_def [symmetric]
    by (auto split: sum.splits)
  then show ?thesis
    using Inr by (simp add: tempUnit_def windUnit_def)
qed

lemma GetWeather_returns:
  assumes "Geocode U city = Inr loc"
    and "\<And>tu wu. getJSON (HTTPGet U (ForecastRequest (Latitude loc) (Longitude loc) tu wu (Timezone loc)))
                    (decodeForecast U) zero_forecastRaw = Inr raw"
    and "dailyForecast (forecastRaw.Daily raw) = Inr forecast"
  shows "\<exists>rep. GetWeather L U BuildOutfit city units = Returned rep"
  by (simp add: GetWeather_def Let_def assms)

text \<open>
  C9.  \<open>FetchConsensus\<close> always returns a summary.  Its \<open>Models\<close> list has one reading per
  configured model, in the order of the configuration and under the model's name: four of
  them.  A reading that is not available carries a non-empty \<open>Err\<close> text.  A report that
  \<open>GetWeather\<close> returns carries the summary of \<open>FetchConsensus\<close> for the geocoded place, never
  \<open>nil\<close>.
\<close>

theorem FetchConsensus_total:
  "map Model (Models (FetchConsensus U lat lon tz tu wu)) = map fst forecastModels
   \<and> map fst forecastModels
       = [''ECMWF'', ''ICON'', ''M'' @ [CHR 0xC3, CHR 0xA9] @ ''t'' @ [CHR 0xC3, CHR 0xA9] @ ''o-France'',
          ''MET Norway'']
   \<and> length (Models (FetchConsensus U lat lon tz tu wu)) = 4
   \<and> (\<forall>r \<in> set (Models (FetchConsensus U lat lon tz tu wu)). \<not> Available r \<longrightarrow> Err r \<noteq> '''')
   \<and> (\<forall>rep. GetWeather L U BuildOutfit city units = Returned rep \<longrightarrow>
         Consensus rep \<noteq> None
         \<and> (\<exists>loc. Geocode U city = Inr loc
               \<and> Consensus rep =
                   Some (FetchConsensus U (Latitude loc) (Longitude loc) (Timezone loc)
                     (if units = ''imperial'' then ''fahrenheit'' else ''celsius'')
                     (if units = ''imperial'' then ''mph'' else ''kmh''))))"
proof (intro conjI ballI allI impI)
  show "map Model (Models (FetchConsensus U lat lon tz tu wu)) = map fst forecastModels"
    by (rule Model_readings)
  show "map fst forecastModels
       = [''ECMWF'', ''ICON'', ''M'' @ [CHR 0xC3, CHR 0xA9] @ ''t'' @ [CHR 0xC3, CHR 0xA9] @ ''o-France'',
          ''MET Norway'']"
    by (simp add: forecastModels_def)
  show "length (Models (FetchConsensus U lat lon tz tu wu)) = 4"
    by (simp add: Models_FetchConsensus forecastModels_def)
next
  fix r assume "r \<in> set (Models (FetchConsensus U lat lon tz tu wu))" and "\<not> Available r"
  then show "Err r \<noteq> ''''" by (rule Err_readings)
next
  fix rep assume r: "GetWeather L U BuildOutfit city units = Returned rep"
  from GetWeather_Returned [OF r] show "Consensus rep \<noteq> None" by auto
  from GetWeather_Returned [OF r]
  show "\<exists>loc. Geocode U city = Inr loc
               \<and> Consensus rep =
                   Some (FetchConsensus U (Latitude loc) (Longitude loc) (Timezone loc)
                     (if units = ''imperial'' then ''fahrenheit'' else ''celsius'')
                     (if units = ''imperial'' then ''mph'' else ''kmh''))" .
qed

lemma Geocode_example: "Geocode (example_upstream a b) ''Paris'' = Inr paris"
  by (simp add: Geocode_def getJSON_unfold example_upstream_def readResponse_def StatusOK_def)

lemma forecast_example:
  "getJSON (HTTPGet (example_upstream a b) (ForecastRequest lat lon tu wu tz))
     (decodeForecast (example_upstream a b)) zero_forecastRaw = Inr example_forecast"
  by (simp add: getJSON_unfold example_upstream_def readResponse_def StatusOK_def)

lemma dailyForecast_example:
  "dailyForecast (forecastRaw.Daily example_forecast) =
     Inr [\<lparr>Date = ''2024-01-01'', Description = ''Partly cloudy'', Icon = ''wi-day-cloudy'',
            TempMax = 12, TempMin = 4, WindMax = 20, PrecipProb = 10\<rparr>,
          \<lparr>Date = ''2024-01-02'', Description = ''Slight rain'', Icon = ''wi-rain-mix'',
            TempMax = 9, TempMin = 3, WindMax = 31, PrecipProb = 0\<rparr>]"
  by (simp add: dailyForecast_def example_forecast_def index_def WMODescription_def WMOIconClass_def)

lemma GetWeather_example:
  "\<exists>rep. GetWeather example_lib (example_upstream 10 12) (\<lambda>rep. zero_OutfitAdvice) ''Paris'' ''metric''
           = Returned rep"
  by (rule GetWeather_returns [OF Geocode_example forecast_example dailyForecast_example])

theorem FetchConsensus_total_witness:
  "map Model (Models (FetchConsensus (example_upstream 10 12) 48.8534 2.3488 ''UTC'' ''celsius'' ''kmh''))
     = [''ECMWF'', ''ICON'', ''M'' @ [CHR 0xC3, CHR 0xA9] @ ''t'' @ [CHR 0xC3, CHR 0xA9] @ ''o-France'',
        ''MET Norway'']
   \<and> map Available (Models (FetchConsensus (example_upstream 10 12) 48.8534 2.3488 ''UTC'' ''celsius'' ''kmh''))
     = [True, True, False, False]
   \<and> map Err (Models (FetchConsensus (example_upstream 10 12) 48.8534 2.3488 ''UTC'' ''celsius'' ''kmh''))
     = ['''', '''', ''API error 503: overloaded'', ''incomplete data'']
   \<and> (\<exists>rep. GetWeather example_lib (example_upstream 10 12) (\<lambda>rep. zero_OutfitAdvice) ''Paris'' ''metric''
                = Returned rep
              \<and> Consensus rep
                  = Some (FetchConsensus (example_upstream 10 12) 48.8534 2.3488 ''UTC'' ''celsius'' ''kmh''))"
proof -
  note t = FetchConsensus_total [of "example_upstream 10 12" "48.8534" "2.3488" "''UTC''" "''celsius''"
      "''kmh''" example_lib "\<lambda>rep. zero_OutfitAdvice" "''Paris''" "''metric''"]
  from GetWeather_example obtain rep where
    r: "GetWeather example_lib (example_upstream 10 12) (\<lambda>rep. zero_OutfitAdvice) ''Paris'' ''metric''
          = Returned rep" ..
  with t have "\<exists>loc. Geocode (example_upstream 10 12) ''Paris'' = Inr loc
               \<and> Consensus rep =
                   Some (FetchConsensus (example_upstream 10 12) (Latitude loc) (Longitude loc) (Timezone loc)
                     (if ''metric'' = ''imperial'' then ''fahrenheit'' else ''celsius'')
                     (if ''metric'' = ''imperial'' then ''mph'' else ''kmh''))"
    by blast
  then have c: "Consensus rep
      = Some (FetchConsensus (example_upstream 10 12) 48.8534 2.3488 ''UTC'' ''celsius'' ''kmh'')"
    by (simp add: Geocode_example paris_def)
  have names: "map Model (Models (FetchConsensus (example_upstream 10 12) 48.8534 2.3488 ''UTC'' ''celsius'' ''kmh''))
     = [''ECMWF'', ''ICON'', ''M'' @ [CHR 0xC3, CHR 0xA9] @ ''t'' @ [CHR 0xC3, CHR 0xA9] @ ''o-France'',
        ''MET Norway'']"
    using t by (elim conjE) (erule trans, assumption)
  show ?thesis
    using names r c by (simp add: Models_FetchConsensus readings_example)
qed

subsection \<open>Report cache\<close>

lemma oldest_step_inv:
  assumes "oldest_inv cache S acc" and "k \<noteq> ''''" and "k \<in> dom cache"
  shows "oldest_inv cache (insert k S) (oldest_step cache k acc)"
proof -
  obtain oldest oldestTime where acc: "acc = (oldest, oldestTime)" by (cases acc)
  from assms(3) obtain e where e: "cache k = Some e" by auto
  show ?thesis
  proof (cases "S = {}")
    case True
    then have "oldest = ''''" using assms(1) by (simp add: oldest_inv_def acc)
    then show ?thesis using True e assms(2) by (simp add: oldest_inv_def oldest_step_def acc)
  next
    case False
    then have inv: "oldest \<in> S" "oldest \<noteq> ''''" "\<exists>e. cache oldest = Some e \<and> createdAt e = oldestTime"
      "\<forall>k \<in> S. \<forall>e. cache k = Some e \<longrightarrow> oldestTime \<le> createdAt e"
      using assms(1) by (simp_all add: oldest_inv_def acc)
    show ?thesis
    proof (cases "createdAt e < oldestTime")
      case True
      then have "oldest_step cache k acc = (k, createdAt e)"
        by (simp add: oldest_step_def acc e)
      moreover have "\<forall>k' \<in> insert k S. \<forall>e'. cache k' = Some e' \<longrightarrow> createdAt e \<le> createdAt e'"
        using inv(4) True e by fastforce
      ultimately show ?thesis using e assms(2) by (simp add: oldest_inv_def)
    next
      case old: False
      then have "oldest_step cache k acc = (oldest, oldestTime)"
        using inv(2) by (simp add: oldest_step_def acc e)
      moreover have "\<forall>k' \<in> insert k S. \<forall>e'. cache k' = Some e' \<longrightarrow> oldestTime \<le> createdAt e'"
        using inv(4) old e by fastforce
      ultimately show ?thesis using inv by (simp add: oldest_inv_def)
    qed
  qed
qed

lemma fold_oldest_inv:
  assumes "oldest_inv cache S acc" and "\<forall>k \<in> set ks. k \<noteq> '''' \<and> k \<in> dom cache"
  shows "oldest_inv cache (S \<union> set ks) (fold (oldest_step cache) ks acc)"
  using assms
proof (induction ks arbitrary: S acc)
  case Nil
  then show ?case by simp
next
  case (Cons k ks)
  have "oldest_inv cache (insert k S) (oldest_step cache k acc)"
    using Cons.prems by (intro oldest_step_inv) simp_all
  then have "oldest_inv cache (insert k S \<union> set ks) (fold (oldest_step cache) ks (oldest_step cache k acc))"
    using Cons.prems(2) by (intro Cons.IH) simp_all
  then show ?case by simp
qed

lemma oldest_found:
  assumes "set order = dom cache" and "'''' \<notin> dom cache" and "dom cache \<noteq> {}"
  shows "\<exists>e. cache (fst (fold (oldest_step cache) order ('''', z))) = Some e
              \<and> (\<forall>k e'. cache k = Some e' \<longrightarrow> createdAt e \<le> createdAt e')"
proof -
  obtain oldest oldestTime where f: "fold (oldest_step cache) order ('''', z) = (oldest, oldestTime)"
    by (cases "fold (oldest_step cache) order ('''', z)")
  have "oldest_inv cache {} ('''', z)"
    by (simp add: oldest_inv_def)
  moreover have "\<forall>k \<in> set order. k \<noteq> '''' \<and> k \<in> dom cache"
    using assms(1,2) by auto
  ultimately have "oldest_inv cache ({} \<union> set order) (fold (oldest_step cache) order ('''', z))"
    by (rule fold_oldest_inv)
  then have "\<exists>e. cache oldest = Some e \<and> createdAt e = oldestTime"
    and "\<forall>k \<in> dom cache. \<forall>e. cache k = Some e \<longrightarrow> oldestTime \<le> createdAt e"
    using assms(1,3) by (simp_all add: oldest_inv_def f)
  then show ?thesis
    unfolding f by fastforce
qed

lemma cacheSet_no_eviction:
  assumes "key \<in> dom cache \<or> card (dom cache) < cacheMaxSize"
  shows "cacheSet cache order key report now1 now2 =
           cache(key \<mapsto> \<lparr>info = report, expires = now1 + cacheTTL, createdAt = now2\<rparr>)"
  using assms by (auto simp: cacheSet_def Let_def)

lemma cacheSet_eviction:
  assumes "key \<notin> dom cache" and "cacheMaxSize \<le> card (dom cache)"
    and "set order = dom cache" and "'''' \<notin> dom cache"
  shows "\<exists>victim e. cache victim = Some e
            \<and> (\<forall>k e'. cache k = Some e' \<longrightarrow> createdAt e \<le> createdAt e')
            \<and> cacheSet cache order key report now1 now2 =
                (cache(victim := None))(key \<mapsto> \<lparr>info = report, expires = now1 + cacheTTL, createdAt = now2\<rparr>)"
proof -
  have "dom cache \<noteq> {}"
    using assms(2) by (auto simp: cacheMaxSize_def)
  from oldest_found [OF assms(3,4) this, of "- 62135596800 * Second"]
  obtain e where "cache (fst (fold (oldest_step cache) order ('''', - 62135596800 * Second))) = Some e"
    and "\<forall>k e'. cache k = Some e' \<longrightarrow> createdAt e \<le> createdAt e'"
    by blast
  moreover have "cacheSet cache order key report now1 now2 =
      (cache(fst (fold (oldest_step cache) order ('''', - 62135596800 * Second)) := None))
        (key \<mapsto> \<lparr>info = report, expires = now1 + cacheTTL, createdAt = now2\<rparr>)"
    using assms(1,2) by (simp add: cacheSet_def Let_def domIff)
  ultimately show ?thesis by blast
qed

lemma cacheSet_card:
  assumes "finite (dom cache)" and "card (dom cache) \<le> cacheMaxSize"
    and "set order = dom cache" and "'''' \<notin> dom cache"
  shows "card (dom (cacheSet cache order key report now1 now2)) \<le> cacheMaxSize"
proof (cases "key \<in> dom cache \<or> card (dom cache) < cacheMaxSize")
  case True
  then have "cacheSet cache order key report now1 now2 =
           cache(key \<mapsto> \<lparr>info = report, expires = now1 + cacheTTL, createdAt = now2\<rparr>)"
    by (rule cacheSet_no_eviction)
  then have "dom (cacheSet cache order key report now1 now2) = insert key (dom cache)"
    by simp
  then show ?thesis
    using True assms(1,2) by (auto simp: card_insert_if)
next
  case False
  then have k: "key \<notin> dom cache" and full: "card (dom cache) = cacheMaxSize"
    using assms(2) by auto
  from cacheSet_eviction [OF k _ assms(3,4), of report now1 now2] full
  obtain victim e where v: "cache victim = Some e"
    and eq: "cacheSet cache order key report now1 now2 =
                (cache(victim := None))(key \<mapsto> \<lparr>info = report, expires = now1 + cacheTTL, createdAt = now2\<rparr>)"
    by auto
  have "dom (cacheSet cache order key report now1 now2) = insert key (dom cache - {victim})"
    unfolding eq by auto
  moreover have "card (insert key (dom cache - {victim})) = card (dom cache)"
  proof -
    have "victim \<in> dom cache" using v by auto
    then have "card (dom cache) = Suc (card (dom cache - {victim}))"
      using assms(1) by (intro card.remove)
    moreover have "card (insert key (dom cache - {victim})) = Suc (card (dom cache - {victim}))"
      using k assms(1) by simp
    ultimately show ?thesis by simp
  qed
  ultimately show ?thesis using full by simp
qed

lemma cacheKey_nonempty: "cacheKey ToLower city units \<noteq> ''''"
  by (simp add: cacheKey_def)

lemma dom_cacheSweep: "dom (cacheSweep cache now) \<subseteq> dom cache"
  by (auto simp: cacheSweep_def split: option.splits if_splits)

lemma dom_cacheSet: "dom (cacheSet cache order key report now1 now2) \<subseteq> insert key (dom cache)"
  by (auto simp: cacheSet_def Let_def split: if_splits)

lemma cache_reachable_inv:
  "cache_reachable cache \<Longrightarrow> finite (dom cache) \<and> card (dom cache) \<le> cacheMaxSize \<and> '''' \<notin> dom cache"
proof (induction rule: cache_reachable.induct)
  case start
  then show ?case by simp
next
  case (store cache order ToLower city units report now1 now2)
  have "finite (dom (cacheSet cache order (cacheKey ToLower city units) report now1 now2))"
    using store.IH by (intro finite_subset [OF dom_cacheSet]) simp
  moreover have "card (dom (cacheSet cache order (cacheKey ToLower city units) report now1 now2)) \<le> cacheMaxSize"
    using store by (intro cacheSet_card) simp_all
  moreover have "'''' \<notin> dom (cacheSet cache order (cacheKey ToLower city units) report now1 now2)"
    using store.IH dom_cacheSet [of cache order "cacheKey ToLower city units" report now1 now2]
      cacheKey_nonempty [of ToLower city units]
    by (metis insertE subsetD)
  ultimately show ?case by simp
next
  case (sweep cache now)
  have "finite (dom (cacheSweep cache now))"
    using sweep.IH by (intro finite_subset [OF dom_cacheSweep]) simp
  moreover have "card (dom (cacheSweep cache now)) \<le> card (dom cache)"
    using sweep.IH by (intro card_mono dom_cacheSweep) simp
  moreover have "'''' \<notin> dom (cacheSweep cache now)"
    using sweep.IH dom_cacheSweep [of cache now] by auto
  ultimately show ?case using sweep.IH by simp
qed

lemma example_key_eq: "example_key i = replicate i CHR ''a'' @ ''|metric''"
  by (simp add: example_key_def cacheKey_def)

lemma example_key_inj: "example_key i = example_key j \<Longrightarrow> i = j"
proof -
  assume "example_key i = example_key j"
  then have "length (example_key i) = length (example_key j)" by simp
  then show "i = j" by (simp add: example_key_eq)
qed

lemma inj_example_key: "inj_on example_key A"
  by (rule inj_onI) (rule example_key_inj)

lemma example_key_fresh: "''paris|metric'' \<noteq> example_key i"
proof
  assume eq: "''paris|metric'' = example_key i"
  then have "length ''paris|metric'' = length (example_key i)" by simp
  then have "i = 5" by (simp add: example_key_eq)
  then show False using eq by (simp add: example_key_eq eval_nat_numeral)
qed

lemma example_cache_upto:
  "n \<le> cacheMaxSize \<Longrightarrow>
     cache_reachable (example_cache n)
     \<and> dom (example_cache n) = example_key ` {..<n}
     \<and> (\<forall>i<n. example_cache n (example_key i)
           = Some \<lparr>info = Some i, expires = int i + cacheTTL, createdAt = int i\<rparr>)"
proof (induction n)
  case 0
  then show ?case by (simp add: cache_reachable.start)
next
  case (Suc n)
  then have n: "n < cacheMaxSize" by simp
  with Suc.IH have reach: "cache_reachable (example_cache n)"
    and d: "dom (example_cache n) = example_key ` {..<n}"
    and entries: "\<forall>i<n. example_cache n (example_key i)
           = Some \<lparr>info = Some i, expires = int i + cacheTTL, createdAt = int i\<rparr>"
    by simp_all
  have dist: "distinct (map example_key [0..<n])"
    by (simp add: distinct_map inj_example_key)
  have order: "set (map example_key [0..<n]) = dom (example_cache n)"
    by (simp add: d atLeast0LessThan)
  have "card (dom (example_cache n)) = n"
    by (simp add: d card_image inj_example_key)
  then have eq: "example_cache (Suc n) =
      (example_cache n)(example_key n \<mapsto> \<lparr>info = Some n, expires = int n + cacheTTL, createdAt = int n\<rparr>)"
    using n by (simp add: cacheSet_no_eviction)
  have "cache_reachable (cacheSet (example_cache n) (map example_key [0..<n])
          (cacheKey (\<lambda>s. s) (replicate n CHR ''a'') ''metric'') (Some n) (int n) (int n))"
    using reach dist order by (rule cache_reachable.store)
  then have "cache_reachable (example_cache (Suc n))"
    by (simp add: example_key_def)
  moreover have "dom (example_cache (Suc n)) = example_key ` {..<Suc n}"
    unfolding eq by (simp add: d lessThan_Suc)
  moreover have "\<forall>i<Suc n. example_cache (Suc n) (example_key i)
           = Some \<lparr>info = Some i, expires = int i + cacheTTL, createdAt = int i\<rparr>"
  proof (intro allI impI)
    fix i assume "i < Suc n"
    then consider "i = n" | "i < n" by linarith
    then show "example_cache (Suc n) (example_key i)
           = Some \<lparr>info = Some i, expires = int i + cacheTTL, createdAt = int i\<rparr>"
    proof cases
      case 1
      then show ?thesis unfolding eq by simp
    next
      case 2
      then have "example_key i \<noteq> example_key n" using example_key_inj by blast
      then show ?thesis unfolding eq using entries 2 by simp
    qed
  qed
  ultimately show ?case by blast
qed

lemma example_cache_full:
  "cache_reachable (example_cache cacheMaxSize)"
  "dom (example_cache cacheMaxSize) = example_key ` {..<cacheMaxSize}"
  "i < cacheMaxSize \<Longrightarrow> example_cache cacheMaxSize (example_key i)
           = Some \<lparr>info = Some i, expires = int i + cacheTTL, createdAt = int i\<rparr>"
  "distinct (map example_key [0..<cacheMaxSize])"
  "set (map example_key [0..<cacheMaxSize]) = dom (example_cache cacheMaxSize)"
  "card (dom (example_cache cacheMaxSize)) = cacheMaxSize"
  "''paris|metric'' \<notin> dom (example_cache cacheMaxSize)"
proof -
  from example_cache_upto [OF order_refl]
  show "cache_reachable (example_cache cacheMaxSize)"
    and d: "dom (example_cache cacheMaxSize) = example_key ` {..<cacheMaxSize}"
    and "i < cacheMaxSize \<Longrightarrow> example_cache cacheMaxSize (example_key i)
           = Some \<lparr>info = Some i, expires = int i + cacheTTL, createdAt = int i\<rparr>"
    by simp_all
  show "distinct (map example_key [0..<cacheMaxSize])"
    by (simp add: distinct_map inj_example_key)
  show "set (map example_key [0..<cacheMaxSize]) = dom (example_cache cacheMaxSize)"
    by (simp add: d atLeast0LessThan)
  show "card (dom (example_cache cacheMaxSize)) = cacheMaxSize"
    by (simp add: d card_image inj_example_key)
  show "''paris|metric'' \<notin> dom (example_cache cacheMaxSize)"
    unfolding d using example_key_fresh by blast
qed

text \<open>
  C5.  In every state of the cache the number of entries is at most \<open>cacheMaxSize\<close>, and it
  stays so after \<open>cacheSet\<close>, whatever order the loop visits the keys in.  Storing a new
  key in a full cache removes exactly one entry, one whose creation time is the least, and
  then adds the new one; storing an existing key, or a new key below capacity, removes
  nothing.  In every case the key then holds the new report with the expiry \<open>now + cacheTTL\<close>.
  \<open>cacheGet\<close> on an entry whose expiry is not after now returns \<open>nil\<close>, although the map still
  holds the entry; a later sweep removes it.
\<close>

theorem cache_capacity_and_expiry:
  assumes "cache_reachable cache" and "distinct order" and "set order = dom cache"
  shows "card (dom cache) \<le> cacheMaxSize
    \<and> card (dom (cacheSet cache order key report now1 now2)) \<le> cacheMaxSize
    \<and> cacheSet cache order key report now1 now2 key
        = Some \<lparr>info = report, expires = now1 + cacheTTL, createdAt = now2\<rparr>
    \<and> (key \<notin> dom cache \<and> card (dom cache) = cacheMaxSize \<longrightarrow>
         (\<exists>victim e. cache victim = Some e
            \<and> (\<forall>k e'. cache k = Some e' \<longrightarrow> createdAt e \<le> createdAt e')
            \<and> cacheSet cache order key report now1 now2 =
                (cache(victim := None))(key \<mapsto> \<lparr>info = report, expires = now1 + cacheTTL, createdAt = now2\<rparr>)
            \<and> dom (cacheSet cache order key report now1 now2) = insert key (dom cache - {victim})))
    \<and> (key \<in> dom cache \<or> card (dom cache) < cacheMaxSize \<longrightarrow>
         cacheSet cache order key report now1 now2 =
           cache(key \<mapsto> \<lparr>info = report, expires = now1 + cacheTTL, createdAt = now2\<rparr>))
    \<and> (key \<in> dom cache \<longrightarrow> dom (cacheSet cache order key report now1 now2) = dom cache)
    \<and> (\<forall>e now. cache key = Some e \<and> expires e \<le> now \<longrightarrow> cacheGet cache now key = None)
    \<and> (\<forall>e now. cache key = Some e \<and> now < expires e \<longrightarrow> cacheGet cache now key = info e)
    \<and> (\<forall>e now. cache key = Some e \<and> expires e < now \<longrightarrow> cacheSweep cache now key = None)
    \<and> (\<forall>e now. cache key = Some e \<and> now \<le> expires e \<longrightarrow> cacheSweep cache now key = Some e)"
proof -
  from cache_reachable_inv [OF assms(1)]
  have fin: "finite (dom cache)" and le: "card (dom cache) \<le> cacheMaxSize" and ne: "'''' \<notin> dom cache"
    by simp_all
  have set_card: "card (dom (cacheSet cache order key report now1 now2)) \<le> cacheMaxSize"
    using fin le assms(3) ne by (rule cacheSet_card)
  have stored: "cacheSet cache order key report now1 now2 key
        = Some \<lparr>info = report, expires = now1 + cacheTTL, createdAt = now2\<rparr>"
    by (simp add: cacheSet_def Let_def)
  have evict: "\<exists>victim e. cache victim = Some e
            \<and> (\<forall>k e'. cache k = Some e' \<longrightarrow> createdAt e \<le> createdAt e')
            \<and> cacheSet cache order key report now1 now2 =
                (cache(victim := None))(key \<mapsto> \<lparr>info = report, expires = now1 + cacheTTL, createdAt = now2\<rparr>)
            \<and> dom (cacheSet cache order key report now1 now2) = insert key (dom cache - {victim})"
    if "key \<notin> dom cache \<and> card (dom cache) = cacheMaxSize"
  proof -
    from that have k: "key \<notin> dom cache" and full: "cacheMaxSize \<le> card (dom cache)" by simp_all
    from cacheSet_eviction [OF k full assms(3) ne, of report now1 now2]
    obtain victim e where v: "cache victim = Some e"
      and m: "\<forall>k e'. cache k = Some e' \<longrightarrow> createdAt e \<le> createdAt e'"
      and eq: "cacheSet cache order key report now1 now2 =
                (cache(victim := None))(key \<mapsto> \<lparr>info = report, expires = now1 + cacheTTL, createdAt = now2\<rparr>)"
      by blast
    have "dom (cacheSet cache order key report now1 now2) = insert key (dom cache - {victim})"
      unfolding eq by auto
    with v m eq show ?thesis by blast
  qed
  have keep: "cacheSet cache order key report now1 now2 =
           cache(key \<mapsto> \<lparr>info = report, expires = now1 + cacheTTL, createdAt = now2\<rparr>)"
    if "key \<in> dom cache \<or> card (dom cache) < cacheMaxSize"
    using that by (rule cacheSet_no_eviction)
  have same: "dom (cacheSet cache order key report now1 now2) = dom cache" if "key \<in> dom cache"
    using that keep by auto
  have get_expired: "cacheGet cache now key = None" if "cache key = Some e \<and> expires e \<le> now" for e now
    using that by (simp add: cacheGet_def)
  have get_live: "cacheGet cache now key = info e" if "cache key = Some e \<and> now < expires e" for e now
    using that by (simp add: cacheGet_def)
  have swept: "cacheSweep cache now key = None" if "cache key = Some e \<and> expires e < now" for e now
    using that by (simp add: cacheSweep_def)
  have kept: "cacheSweep cache now key = Some e" if "cache key = Some e \<and> now \<le> expires e" for e now
    using that by (simp add: cacheSweep_def)
  show ?thesis
    using le set_card stored evict keep same get_expired get_live swept kept by blast
qed

theorem cache_capacity_and_expiry_witness:
  "card (dom (example_cache cacheMaxSize)) = cacheMaxSize
   \<and> example_cache cacheMaxSize (example_key 0) = Some \<lparr>info = Some 0, expires = 0 + cacheTTL, createdAt = 0\<rparr>
   \<and> cacheSet (example_cache cacheMaxSize) (map example_key [0..<cacheMaxSize]) ''paris|metric'' (Some 1000) 1000 1001
       = ((example_cache cacheMaxSize)(example_key 0 := None))
           (''paris|metric'' \<mapsto> \<lparr>info = Some 1000, expires = 1000 + cacheTTL, createdAt = 1001\<rparr>)
   \<and> card (dom (cacheSet (example_cache cacheMaxSize) (map example_key [0..<cacheMaxSize]) ''paris|metric'' (Some 1000) 1000 1001))
       \<le> cacheMaxSize
   \<and> cacheSet (example_cache cacheMaxSize) (map example_key [0..<cacheMaxSize]) (example_key 7) (Some 1000) 1000 1001
       = (example_cache cacheMaxSize)
           (example_key 7 \<mapsto> \<lparr>info = Some 1000, expires = 1000 + cacheTTL, createdAt = 1001\<rparr>)
   \<and> example_cache cacheMaxSize (example_key 7) = Some \<lparr>info = Some 7, expires = 7 + cacheTTL, createdAt = 7\<rparr>
   \<and> cacheGet (example_cache cacheMaxSize) (7 + cacheTTL) (example_key 7) = None
   \<and> cacheGet (example_cache cacheMaxSize) (6 + cacheTTL) (example_key 7) = Some 7
   \<and> cacheSweep (example_cache cacheMaxSize) (8 + cacheTTL) (example_key 7) = None"
proof -
  note full = example_cache_full
  note new = cache_capacity_and_expiry [OF full(1) full(4) full(5),
      of "''paris|metric''" "Some 1000" 1000 1001]
  note old = cache_capacity_and_expiry [OF full(1) full(4) full(5),
      of "example_key 7" "Some 1000" 1000 1001]
  have e0: "example_cache cacheMaxSize (example_key 0) = Some \<lparr>info = Some 0, expires = 0 + cacheTTL, createdAt = 0\<rparr>"
    using full(3) [of 0] by (simp add: cacheMaxSize_def)
  have e7: "example_cache cacheMaxSize (example_key 7) = Some \<lparr>info = Some 7, expires = 7 + cacheTTL, createdAt = 7\<rparr>"
    using full(3) [of 7] by (simp add: cacheMaxSize_def)
  have "\<exists>victim e. example_cache cacheMaxSize victim = Some e
      \<and> (\<forall>k e'. example_cache cacheMaxSize k = Some e' \<longrightarrow> createdAt e \<le> createdAt e')
      \<and> cacheSet (example_cache cacheMaxSize) (map example_key [0..<cacheMaxSize]) ''paris|metric'' (Some 1000) 1000 1001
          = ((example_cache cacheMaxSize)(victim := None))
              (''paris|metric'' \<mapsto> \<lparr>info = Some 1000, expires = 1000 + cacheTTL, createdAt = 1001\<rparr>)
      \<and> dom (cacheSet (example_cache cacheMaxSize) (map example_key [0..<cacheMaxSize]) ''paris|metric'' (Some 1000) 1000 1001)
          = insert ''paris|metric'' (dom (example_cache cacheMaxSize) - {victim})"
    by (rule new [THEN conjunct2, THEN conjunct2, THEN conjunct2, THEN conjunct1, THEN mp])
      (simp add: full(6) full(7))
  then obtain victim e where v: "example_cache cacheMaxSize victim = Some e"
    and least: "\<forall>k e'. example_cache cacheMaxSize k = Some e' \<longrightarrow> createdAt e \<le> createdAt e'"
    and eq: "cacheSet (example_cache cacheMaxSize) (map example_key [0..<cacheMaxSize]) ''paris|metric'' (Some 1000) 1000 1001
       = ((example_cache cacheMaxSize)(victim := None))
           (''paris|metric'' \<mapsto> \<lparr>info = Some 1000, expires = 1000 + cacheTTL, createdAt = 1001\<rparr>)"
    by (elim exE conjE)
  from v have "victim \<in> dom (example_cache cacheMaxSize)" by auto
  then obtain i where i: "i < cacheMaxSize" "victim = example_key i"
    unfolding full(2) by auto
  then have "e = \<lparr>info = Some i, expires = int i + cacheTTL, createdAt = int i\<rparr>"
    using v full(3) [of i] by simp
  moreover have "createdAt e \<le> 0"
    using least [rule_format, OF e0] by simp
  ultimately have "i = 0" by simp
  then have evicted: "cacheSet (example_cache cacheMaxSize) (map example_key [0..<cacheMaxSize]) ''paris|metric'' (Some 1000) 1000 1001
       = ((example_cache cacheMaxSize)(example_key 0 := None))
           (''paris|metric'' \<mapsto> \<lparr>info = Some 1000, expires = 1000 + cacheTTL, createdAt = 1001\<rparr>)"
    using eq i by simp
  have bound: "card (dom (cacheSet (example_cache cacheMaxSize) (map example_key [0..<cacheMaxSize]) ''paris|metric'' (Some 1000) 1000 1001))
       \<le> cacheMaxSize"
    by (rule new [THEN conjunct2, THEN conjunct1])
  have "example_key 7 \<in> dom (example_cache cacheMaxSize)"
    using e7 by auto
  then have overwrite: "cacheSet (example_cache cacheMaxSize) (map example_key [0..<cacheMaxSize]) (example_key 7) (Some 1000) 1000 1001
       = (example_cache cacheMaxSize)
           (example_key 7 \<mapsto> \<lparr>info = Some 1000, expires = 1000 + cacheTTL, createdAt = 1001\<rparr>)"
    by (intro old [THEN conjunct2, THEN conjunct2, THEN conjunct2, THEN conjunct2, THEN conjunct1, THEN mp] disjI1)
  have expired: "cacheGet (example_cache cacheMaxSize) (7 + cacheTTL) (example_key 7) = None"
    using old [THEN conjunct2, THEN conjunct2, THEN conjunct2, THEN conjunct2, THEN conjunct2,
          THEN conjunct2, THEN conjunct1, rule_format, of _ "7 + cacheTTL"] e7
    by simp
  have live: "cacheGet (example_cache cacheMaxSize) (6 + cacheTTL) (example_key 7) = Some 7"
    using old [THEN conjunct2, THEN conjunct2, THEN conjunct2, THEN conjunct2, THEN conjunct2,
          THEN conjunct2, THEN conjunct2, THEN conjunct1, rule_format, of _ "6 + cacheTTL"] e7
    by simp
  have swept: "cacheSweep (example_cache cacheMaxSize) (8 + cacheTTL) (example_key 7) = None"
    using old [THEN conjunct2, THEN conjunct2, THEN conjunct2, THEN conjunct2, THEN conjunct2,
          THEN conjunct2, THEN conjunct2, THEN conjunct2, THEN conjunct1, rule_format, of _ "8 + cacheTTL"] e7
    by simp
  show ?thesis
    by (intro conjI full(6) e0 evicted bound overwrite e7 expired live swept)
qed

end
